theory Spec2Isabelle
  imports Main
begin

section \<open>Python strings\<close>

text \<open>
  A Python \<open>str\<close> is a sequence of Unicode code points, so it is modelled as a list of
  natural numbers (the code points), not as a byte string. ASCII literals of the source
  are written with \<open>asc\<close>; the CJK literals of the source are written by code point.
\<close>

type_synonym ustr = "nat list"

definition asc :: "string \<Rightarrow> ustr" where
  "asc s = map of_char s"

fun is_prefix :: "ustr \<Rightarrow> ustr \<Rightarrow> bool" where
  "is_prefix [] ys = True"
| "is_prefix (x # xs) [] = False"
| "is_prefix (x # xs) (y # ys) = (x = y \<and> is_prefix xs ys)"

text \<open>Python's \<open>p in s\<close> on strings: \<open>p\<close> occurs in \<open>s\<close> as a contiguous substring.\<close>

fun contains :: "ustr \<Rightarrow> ustr \<Rightarrow> bool" where
  "contains p [] = (p = [])"
| "contains p (y # ys) = (is_prefix p (y # ys) \<or> contains p ys)"

section \<open>Page type resolver (utils.py, class PageTypeIdentifier)\<close>

text \<open>
  The region labels of the source, by code point:
  U+603B U+5C40 (head office), U+5317 U+4EAC (Beijing), U+91CD U+5E86 (Chongqing),
  U+4E0A U+6D77 (Shanghai), U+5E7F U+4E1C (Guangdong), U+9655 U+897F (Shaanxi),
  U+672A U+77E5 (unknown).
\<close>

definition zh_zongju :: ustr where "zh_zongju = [24635, 23616]"
definition zh_beijing :: ustr where "zh_beijing = [21271, 20140]"
definition zh_chongqing :: ustr where "zh_chongqing = [37325, 24198]"
definition zh_shanghai :: ustr where "zh_shanghai = [19978, 28023]"
definition zh_guangdong :: ustr where "zh_guangdong = [24191, 19996]"
definition zh_shaanxi :: ustr where "zh_shaanxi = [38485, 35199]"
definition zh_unknown :: ustr where "zh_unknown = [26410, 30693]"

text \<open>\<open>PageTypeIdentifier.REGION_MAP\<close>, a dict literal, in its insertion order.\<close>

definition REGION_MAP :: "(ustr \<times> ustr) list" where
  "REGION_MAP =
    [(asc ''samr'', zh_zongju),
     (asc ''beijing'', zh_beijing),
     (asc ''chongqing'', zh_chongqing),
     (asc ''shanghai'', zh_shanghai),
     (asc ''guangdong'', zh_guangdong),
     (asc ''shaanxi'', zh_shaanxi)]"

text \<open>
  \<open>identify_page_type(url)\<close>: an \<open>if\<close>/\<open>elif\<close> chain of substring tests; the result is a
  page type name or Python's \<open>None\<close>.
\<close>

definition identify_page_type :: "ustr \<Rightarrow> ustr option" where
  "identify_page_type url =
    (if contains (asc ''samr.gov.cn'') url then Some (asc ''samr'')
     else if contains (asc ''scjgj.beijing.gov.cn'') url then Some (asc ''beijing'')
     else if contains (asc ''scjgj.cq.gov.cn'') url then Some (asc ''chongqing'')
     else if contains (asc ''scjgj.sh.gov.cn'') url then Some (asc ''shanghai'')
     else if contains (asc ''amr.gd.gov.cn'') url then Some (asc ''guangdong'')
     else if contains (asc ''snamr.shaanxi.gov.cn'') url then Some (asc ''shaanxi'')
     else None)"

text \<open>
  \<open>get_region(page_type)\<close> is \<open>REGION_MAP.get(page_type, unknown)\<close>. The argument is any
  Python value the caller passes: a string or \<open>None\<close> (which is not a key of the dict).
\<close>

definition get_region :: "ustr option \<Rightarrow> ustr" where
  "get_region page_type =
    (case page_type of
       None \<Rightarrow> zh_unknown
     | Some k \<Rightarrow> (case map_of REGION_MAP k of Some r \<Rightarrow> r | None \<Rightarrow> zh_unknown))"

text \<open>
  The specification's wording of the resolver: an ordered list of (domain substring,
  source identifier) pairs, scanned in order; the first pair whose substring occurs in
  the URL gives the result, and "unresolved" is the result when none occurs.
\<close>

definition resolver_table :: "(ustr \<times> ustr) list" where
  "resolver_table =
    [(asc ''samr.gov.cn'', asc ''samr''),
     (asc ''scjgj.beijing.gov.cn'', asc ''beijing''),
     (asc ''scjgj.cq.gov.cn'', asc ''chongqing''),
     (asc ''scjgj.sh.gov.cn'', asc ''shanghai''),
     (asc ''amr.gd.gov.cn'', asc ''guangdong''),
     (asc ''snamr.shaanxi.gov.cn'', asc ''shaanxi'')]"

fun first_match :: "(ustr \<times> ustr) list \<Rightarrow> ustr \<Rightarrow> ustr option" where
  "first_match [] url = None"
| "first_match ((d, t) # rest) url = (if contains d url then Some t else first_match rest url)"

section \<open>The second resolver (scraper.py, class CaseScraper)\<close>

text \<open>
  \<open>get_page_type\<close> iterates over \<open>domain_map.items()\<close>, a dict literal, in insertion order
  and returns at the first domain that occurs in the URL.
\<close>

definition domain_map :: "(ustr \<times> ustr) list" where
  "domain_map =
    [(asc ''scjgj.beijing.gov.cn'', asc ''beijing''),
     (asc ''scjgj.sh.gov.cn'', asc ''shanghai''),
     (asc ''scjgj.cq.gov.cn'', asc ''chongqing''),
     (asc ''amr.gd.gov.cn'', asc ''guangdong''),
     (asc ''scjgj.shaanxi.gov.cn'', asc ''shaanxi''),
     (asc ''samr.gov.cn'', asc ''samr'')]"

fun get_page_type_loop :: "(ustr \<times> ustr) list \<Rightarrow> ustr \<Rightarrow> ustr option" where
  "get_page_type_loop [] url = None"
| "get_page_type_loop ((domain, page_type) # items) url =
     (if contains domain url then Some page_type else get_page_type_loop items url)"

definition get_page_type :: "ustr \<Rightarrow> ustr option" where
  "get_page_type url = get_page_type_loop domain_map url"

text \<open>The samr label of this map is U+56FD U+5BB6 U+5E02 U+573A U+76D1 U+7763 U+7BA1 U+7406 U+603B U+5C40.\<close>

definition zh_samr_full :: ustr where
  "zh_samr_full = [22269, 23478, 24066, 22330, 30417, 30563, 31649, 29702, 24635, 23616]"

definition region_map :: "(ustr \<times> ustr) list" where
  "region_map =
    [(asc ''beijing'', zh_beijing),
     (asc ''shanghai'', zh_shanghai),
     (asc ''chongqing'', zh_chongqing),
     (asc ''guangdong'', zh_guangdong),
     (asc ''shaanxi'', zh_shaanxi),
     (asc ''samr'', zh_samr_full)]"

definition get_region_name :: "ustr option \<Rightarrow> ustr" where
  "get_region_name page_type =
    (case page_type of
       None \<Rightarrow> zh_unknown
     | Some k \<Rightarrow> (case map_of region_map k of Some r \<Rightarrow> r | None \<Rightarrow> zh_unknown))"

section \<open>String operations used by the date code\<close>

text \<open>
  Python's notion of white space for \<open>str.strip\<close>, \<open>str.split\<close> and the pattern class
  \<open>\s\<close>: the code points U+0009..U+000D, U+001C..U+0020, U+0085, U+00A0, U+1680,
  U+2000..U+200A, U+2028, U+2029, U+202F, U+205F, U+3000.
\<close>

definition is_space :: "nat \<Rightarrow> bool" where
  "is_space c \<longleftrightarrow>
     (9 \<le> c \<and> c \<le> 13) \<or> (28 \<le> c \<and> c \<le> 32) \<or> c = 133 \<or> c = 160 \<or> c = 5760 \<or>
     (8192 \<le> c \<and> c \<le> 8202) \<or> c = 8232 \<or> c = 8233 \<or> c = 8239 \<or> c = 8287 \<or> c = 12288"

text \<open>
  The pattern class \<open>\d\<close>. The model knows the ASCII digits only: a text with a decimal
  digit of another script is outside it.
\<close>

definition is_digit :: "nat \<Rightarrow> bool" where
  "is_digit c \<longleftrightarrow> 48 \<le> c \<and> c \<le> 57"

definition py_strip :: "ustr \<Rightarrow> ustr" where
  "py_strip s = rev (dropWhile is_space (rev (dropWhile is_space s)))"

text \<open>\<open>s.replace(c, new)\<close> for a one-character \<open>c\<close>, the only form the source uses.\<close>

definition py_replace :: "nat \<Rightarrow> ustr \<Rightarrow> ustr \<Rightarrow> ustr" where
  "py_replace c new s = concat (map (\<lambda>x. if x = c then new else [x]) s)"

text \<open>\<open>s.split(c)\<close> for a one-character separator: always at least one part.\<close>

fun py_split_on :: "nat \<Rightarrow> ustr \<Rightarrow> ustr list" where
  "py_split_on c [] = [[]]"
| "py_split_on c (x # xs) =
     (if x = c then [] # py_split_on c xs
      else (case py_split_on c xs of
              [] \<Rightarrow> [[x]]
            | p # ps \<Rightarrow> (x # p) # ps))"

text \<open>\<open>s.split()\<close>: the maximal runs of non-space characters.\<close>

fun py_split_ws_acc :: "ustr \<Rightarrow> ustr \<Rightarrow> ustr list" where
  "py_split_ws_acc cur [] = (if cur = [] then [] else [rev cur])"
| "py_split_ws_acc cur (x # xs) =
     (if is_space x then (if cur = [] then [] else [rev cur]) @ py_split_ws_acc [] xs
      else py_split_ws_acc (x # cur) xs)"

definition py_split_ws :: "ustr \<Rightarrow> ustr list" where
  "py_split_ws s = py_split_ws_acc [] s"

fun py_join :: "ustr \<Rightarrow> ustr list \<Rightarrow> ustr" where
  "py_join sep [] = []"
| "py_join sep [p] = p"
| "py_join sep (p # q # ps) = p @ sep @ py_join sep (q # ps)"

text \<open>The characters of the date formats: U+5E74 (year), U+6708 (month), U+65E5 (day),
  U+81F3 and U+5230 (to), U+FF1A (full-width colon), U+FF08 and U+FF09 (full-width
  parentheses), and the words U+516C U+793A U+671F (U+9650) (notice period).\<close>

definition ch_nian :: nat where "ch_nian = 24180"
definition ch_yue :: nat where "ch_yue = 26376"
definition ch_ri :: nat where "ch_ri = 26085"
definition ch_zhi :: nat where "ch_zhi = 33267"
definition ch_dao :: nat where "ch_dao = 21040"
definition ch_colon :: nat where "ch_colon = 65306"
definition ch_lparen :: nat where "ch_lparen = 65288"
definition ch_rparen :: nat where "ch_rparen = 65289"
definition ch_gong :: nat where "ch_gong = 20844"
definition ch_shi :: nat where "ch_shi = 31034"
definition ch_qi :: nat where "ch_qi = 26399"
definition ch_xian :: nat where "ch_xian = 38480"

definition c_dash :: nat where "c_dash = 45"
definition c_dot :: nat where "c_dot = 46"
definition c_slash :: nat where "c_slash = 47"
definition c_colon :: nat where "c_colon = 58"
definition c_space :: nat where "c_space = 32"

section \<open>Regular expressions with Python's backtracking order\<close>

text \<open>
  The patterns of the source are data, so they are embedded as values of a small pattern
  type. A match of a pattern against an input is computed as the list of all ways the
  backtracking matcher can succeed, in the order it tries them (greedy repetition takes
  more characters first, the left alternative comes first); Python reports the head of
  that list.
\<close>

datatype cls = Digit | Space | OneOf ustr | Range nat nat

fun in_cls :: "cls \<Rightarrow> nat \<Rightarrow> bool" where
  "in_cls Digit c = is_digit c"
| "in_cls Space c = is_space c"
| "in_cls (OneOf cs) c = (c \<in> set cs)"
| "in_cls (Range lo hi) c = (lo \<le> c \<and> c \<le> hi)"

datatype rx =
    Eps
  | Cls cls
  | RepC cls nat "nat option"
  | Cat rx rx
  | Alt rx rx
  | Grp nat rx

text \<open>\<open>RepC c lo hi\<close> is the greedy repetition \<open>c{lo,hi}\<close> of a character class
  (\<open>hi = None\<close> for no upper bound); the result lists the remaining inputs, longest
  repetition first.\<close>

fun rep_cls :: "cls \<Rightarrow> nat \<Rightarrow> nat option \<Rightarrow> ustr \<Rightarrow> ustr list" where
  "rep_cls c lo hi [] = (if lo = 0 then [[]] else [])"
| "rep_cls c lo hi (x # xs) =
     (if in_cls c x \<and> hi \<noteq> Some 0
      then rep_cls c (lo - 1) (map_option (\<lambda>h. h - 1) hi) xs else [])
     @ (if lo = 0 then [x # xs] else [])"

type_synonym caps = "(nat \<times> ustr) list"

fun rmatch :: "rx \<Rightarrow> caps \<Rightarrow> ustr \<Rightarrow> (caps \<times> ustr) list" where
  "rmatch Eps cs s = [(cs, s)]"
| "rmatch (Cls c) cs s =
     (case s of [] \<Rightarrow> [] | x # xs \<Rightarrow> if in_cls c x then [(cs, xs)] else [])"
| "rmatch (RepC c lo hi) cs s = map (Pair cs) (rep_cls c lo hi s)"
| "rmatch (Cat a b) cs s = concat (map (\<lambda>(cs', s'). rmatch b cs' s') (rmatch a cs s))"
| "rmatch (Alt a b) cs s = rmatch a cs s @ rmatch b cs s"
| "rmatch (Grp n a) cs s =
     map (\<lambda>(cs', s'). ((n, take (length s - length s') s) # cs', s')) (rmatch a cs s)"

text \<open>\<open>re.match\<close>: anchored at the start; \<open>re.search\<close>: the leftmost start position
  that has a match. Both give the captures and the unmatched rest.\<close>

definition re_match :: "rx \<Rightarrow> ustr \<Rightarrow> (caps \<times> ustr) option" where
  "re_match r s = (case rmatch r [] s of [] \<Rightarrow> None | m # _ \<Rightarrow> Some m)"

fun re_search :: "rx \<Rightarrow> ustr \<Rightarrow> (caps \<times> ustr) option" where
  "re_search r [] = re_match r []"
| "re_search r (x # xs) =
     (case re_match r (x # xs) of Some m \<Rightarrow> Some m | None \<Rightarrow> re_search r xs)"

definition group :: "caps \<Rightarrow> nat \<Rightarrow> ustr option" where
  "group cs n = map_of cs n"

fun lit :: "ustr \<Rightarrow> rx" where
  "lit [] = Eps"
| "lit (c # cs) = Cat (Cls (OneOf [c])) (lit cs)"

fun cats :: "rx list \<Rightarrow> rx" where
  "cats [] = Eps"
| "cats (r # rs) = Cat r (cats rs)"

section \<open>\<open>datetime.strptime\<close> and \<open>strftime\<close>\<close>

record datetime =
  year :: nat
  month :: nat
  day :: nat
  hour :: nat
  minute :: nat
  second :: nat

text \<open>\<open>int(s)\<close> on a captured group: optional surrounding white space, then digits.\<close>

definition py_int :: "ustr \<Rightarrow> nat" where
  "py_int s = foldl (\<lambda>a c. 10 * a + (c - 48)) 0 (py_strip s)"

definition leap_year :: "nat \<Rightarrow> bool" where
  "leap_year y \<longleftrightarrow> y mod 4 = 0 \<and> (y mod 100 \<noteq> 0 \<or> y mod 400 = 0)"

definition days_in_month :: "nat \<Rightarrow> nat \<Rightarrow> nat" where
  "days_in_month y m =
     (if m = 2 then (if leap_year y then 29 else 28)
      else if m = 4 \<or> m = 6 \<or> m = 9 \<or> m = 11 then 30 else 31)"

text \<open>The constructor \<open>datetime(y, m, d, H, M, S)\<close> raises \<open>ValueError\<close> outside these ranges.\<close>

definition mk_datetime :: "nat \<Rightarrow> nat \<Rightarrow> nat \<Rightarrow> nat \<Rightarrow> nat \<Rightarrow> nat \<Rightarrow> datetime option" where
  "mk_datetime y m d H M S =
     (if 1 \<le> y \<and> y \<le> 9999 \<and> 1 \<le> m \<and> m \<le> 12 \<and> 1 \<le> d \<and> d \<le> days_in_month y m
         \<and> H < 24 \<and> M < 60 \<and> S < 60
      then Some \<lparr>year = y, month = m, day = d, hour = H, minute = M, second = S\<rparr>
      else None)"

text \<open>
  \<open>strptime\<close> turns a format into a pattern, directive by directive, matches it at the
  start of the string and raises \<open>ValueError\<close> when the pattern does not match or when
  text remains after the match. The directives' patterns are those of the standard
  library: \<open>%Y\<close> is \<open>\d\d\d\d\<close>, \<open>%m\<close> is \<open>1[0-2]|0[1-9]|[1-9]\<close>,
  \<open>%d\<close> is \<open>3[0-1]|[1-2]\d|0[1-9]|[1-9]| [1-9]\<close>, \<open>%H\<close> is \<open>2[0-3]|[0-1]\d|\d\<close>,
  \<open>%M\<close> is \<open>[0-5]\d|\d\<close>, \<open>%S\<close> is \<open>6[0-1]|[0-5]\d|\d\<close>, and a blank of the format
  is \<open>\s+\<close>.
\<close>

definition d19 :: cls where "d19 = Range 49 57"

definition rx_Y :: rx where
  "rx_Y = Grp 1 (cats [Cls Digit, Cls Digit, Cls Digit, Cls Digit])"

definition rx_m :: rx where
  "rx_m = Grp 2 (Alt (Cat (Cls (OneOf [49])) (Cls (Range 48 50)))
                (Alt (Cat (Cls (OneOf [48])) (Cls d19))
                     (Cls d19)))"

definition rx_d :: rx where
  "rx_d = Grp 3 (Alt (Cat (Cls (OneOf [51])) (Cls (Range 48 49)))
                (Alt (Cat (Cls (Range 49 50)) (Cls Digit))
                (Alt (Cat (Cls (OneOf [48])) (Cls d19))
                (Alt (Cls d19)
                     (Cat (Cls (OneOf [32])) (Cls d19))))))"

definition rx_H :: rx where
  "rx_H = Grp 4 (Alt (Cat (Cls (OneOf [50])) (Cls (Range 48 51)))
                (Alt (Cat (Cls (Range 48 49)) (Cls Digit))
                     (Cls Digit)))"

definition rx_M :: rx where
  "rx_M = Grp 5 (Alt (Cat (Cls (Range 48 53)) (Cls Digit)) (Cls Digit))"

definition rx_S :: rx where
  "rx_S = Grp 6 (Alt (Cat (Cls (OneOf [54])) (Cls (Range 48 49)))
                (Alt (Cat (Cls (Range 48 53)) (Cls Digit))
                     (Cls Digit)))"

definition field :: "caps \<Rightarrow> nat \<Rightarrow> nat" where
  "field cs n = (case group cs n of None \<Rightarrow> 0 | Some s \<Rightarrow> py_int s)"

text \<open>\<open>strptime(s, fmt)\<close> for a format given as its pattern; \<open>None\<close> is \<open>ValueError\<close>.
  Fields the format does not name default to 0, as the hour, minute and second do.\<close>

definition strptime_rx :: "rx \<Rightarrow> ustr \<Rightarrow> datetime option" where
  "strptime_rx fmt s =
     (case re_match fmt s of
        None \<Rightarrow> None
      | Some (cs, rest) \<Rightarrow>
          if rest \<noteq> [] then None
          else mk_datetime (field cs 1) (field cs 2) (field cs 3)
                           (field cs 4) (field cs 5) (field cs 6))"

text \<open>The three formats of the source: \<open>%Y-%m-%d\<close>, \<open>%Y-%m-%d %H:%M:%S\<close>, \<open>%Y%m%d\<close>.\<close>

definition fmt_ymd :: rx where
  "fmt_ymd = cats [rx_Y, lit [c_dash], rx_m, lit [c_dash], rx_d]"

definition fmt_ymd_hms :: rx where
  "fmt_ymd_hms = cats [rx_Y, lit [c_dash], rx_m, lit [c_dash], rx_d, RepC Space 1 None,
                       rx_H, lit [c_colon], rx_M, lit [c_colon], rx_S]"

definition fmt_compact :: rx where
  "fmt_compact = cats [rx_Y, rx_m, rx_d]"

definition pad2 :: "nat \<Rightarrow> ustr" where
  "pad2 n = (if n < 10 then [48, 48 + n] else [48 + n div 10, 48 + n mod 10])"

definition pad4 :: "nat \<Rightarrow> ustr" where
  "pad4 n = [48 + n div 1000, 48 + n div 100 mod 10, 48 + n div 10 mod 10, 48 + n mod 10]"

text \<open>\<open>dt.strftime('%Y-%m-%d')\<close>, with the year written in four digits (the C library
  decides the padding of a year below 1000; the model pads).\<close>

definition strftime_ymd :: "datetime \<Rightarrow> ustr" where
  "strftime_ymd dt = pad4 (year dt) @ [c_dash] @ pad2 (month dt) @ [c_dash] @ pad2 (day dt)"

section \<open>DateParser (utils.py)\<close>

text \<open>
  \<open>parse_date_string(date_str)\<close>: strip, rewrite the CJK date marks, then try the three
  formats in order. Every exception, also the one a non-string argument raises at
  \<open>date_str.strip()\<close>, ends in \<open>return None\<close>.
\<close>

fun try_formats :: "rx list \<Rightarrow> ustr \<Rightarrow> datetime option" where
  "try_formats [] s = None"
| "try_formats (fmt # fmts) s =
     (case strptime_rx fmt s of Some dt \<Rightarrow> Some dt | None \<Rightarrow> try_formats fmts s)"

definition parse_date_string :: "ustr option \<Rightarrow> datetime option" where
  "parse_date_string date_str =
     (case date_str of
        None \<Rightarrow> None
      | Some s0 \<Rightarrow>
          (let s1 = py_strip s0;
               s2 = py_replace ch_ri [] (py_replace ch_yue [c_dash] (py_replace ch_nian [c_dash] s1))
           in try_formats [fmt_ymd, fmt_ymd_hms, fmt_compact] s2))"

text \<open>
  \<open>DateParser.extract_date_range(text, pattern=None)\<close>. With a pattern, the range is group 1
  of the first match; no match leaves \<open>date_range\<close> unbound, a missing group raises and a
  group that took no part is \<open>None\<close>: each of these raises inside the \<open>try\<close> and the
  function returns \<open>(None, None)\<close>. The unpacking of \<open>split\<close> raises unless there are
  exactly two parts.
\<close>

definition DateParser_extract_date_range ::
    "ustr \<Rightarrow> rx option \<Rightarrow> datetime option \<times> datetime option" where
  "DateParser_extract_date_range text pattern =
     (let date_range =
            (case pattern of
               None \<Rightarrow> Some text
             | Some p \<Rightarrow> (case re_search p text of
                            None \<Rightarrow> None
                          | Some (cs, rest) \<Rightarrow> group cs 1))
      in case date_range of
           None \<Rightarrow> (None, None)
         | Some dr \<Rightarrow>
             if contains [ch_zhi] dr then
               (case py_split_on ch_zhi dr of
                  [start_date, end_date] \<Rightarrow>
                    (parse_date_string (Some (py_strip start_date)),
                     parse_date_string (Some (py_strip end_date)))
                | _ \<Rightarrow> (None, None))
             else (None, None))"

section \<open>BaseParser.extract_date_range and normalize_date (parsers.py)\<close>

definition date_full :: "ustr \<Rightarrow> ustr \<Rightarrow> rx" where
  "date_full ysep msep =
     cats [RepC Digit 4 (Some 4), Cls (OneOf ysep), RepC Digit 1 (Some 2), Cls (OneOf msep),
           RepC Digit 1 (Some 2), RepC (OneOf [ch_ri]) 0 (Some 1)]"

definition date_short :: "ustr \<Rightarrow> rx" where
  "date_short msep =
     cats [RepC Digit 1 (Some 2), Cls (OneOf msep), RepC Digit 1 (Some 2),
           RepC (OneOf [ch_ri]) 0 (Some 1)]"

definition ws :: rx where "ws = RepC Space 0 None"

text \<open>The five patterns, in the order of the source's list.\<close>

definition pat1 :: rx where
  "pat1 = cats [Grp 1 (date_full [c_dash, ch_nian] [c_dash, ch_yue]), ws,
                Cls (OneOf [ch_zhi, ch_dao, c_dash]), ws,
                Grp 2 (date_full [c_dash, ch_nian] [c_dash, ch_yue])]"

definition pat2 :: rx where
  "pat2 = cats [Grp 1 (date_full [c_dot, ch_nian] [c_dot, ch_yue]), ws,
                Cls (OneOf [c_dash, ch_zhi]), ws,
                Grp 2 (date_full [c_dot, ch_nian] [c_dot, ch_yue])]"

definition pat3 :: rx where
  "pat3 = cats [Grp 1 (date_full [c_dot, ch_nian] [c_dot, ch_yue]), ws,
                Cls (OneOf [c_dash, ch_zhi]), ws,
                Grp 2 (date_short [c_dot, ch_yue])]"

definition pat4 :: rx where
  "pat4 = cats [lit [ch_gong, ch_shi, ch_qi, ch_xian, ch_colon], ws,
                Grp 1 (date_full [ch_nian, c_dash] [ch_yue, c_dash]), ws,
                Cls (OneOf [c_dash, ch_zhi]), ws,
                Grp 2 (date_full [ch_nian, c_dash] [ch_yue, c_dash])]"

definition pat5 :: rx where
  "pat5 = cats [Cls (OneOf [ch_lparen, 40]),
                Grp 1 (date_full [c_dot, ch_nian] [c_dot, ch_yue]), ws,
                Cls (OneOf [c_dash, ch_zhi]), ws,
                Grp 2 (date_full [c_dot, ch_nian] [c_dot, ch_yue]),
                Cls (OneOf [41, ch_rparen])]"

definition patterns :: "rx list" where
  "patterns = [pat1, pat2, pat3, pat4, pat5]"

definition first_part :: "nat \<Rightarrow> ustr \<Rightarrow> ustr" where
  "first_part c s = (case py_split_on c s of [] \<Rightarrow> [] | p # ps \<Rightarrow> p)"

definition unify :: "ustr \<Rightarrow> ustr" where
  "unify s = py_replace c_dot [c_dash]
               (py_replace ch_ri [] (py_replace ch_yue [c_dash] (py_replace ch_nian [c_dash] s)))"

text \<open>The body of the loop for one match: complete a short end date with the start's
  year, unify the separators, and reformat both dates; \<open>None\<close> is the \<open>except\<close> branch,
  which continues with the next pattern.\<close>

definition convert_groups :: "ustr \<Rightarrow> ustr \<Rightarrow> (ustr \<times> ustr) option" where
  "convert_groups start_date end_date =
     (let end_date' =
            (if length (first_part c_dot end_date) \<le> 2
             then first_part c_dot start_date @ [c_dot] @ end_date
             else end_date)
      in case strptime_rx fmt_ymd (unify start_date) of
           None \<Rightarrow> None
         | Some sd \<Rightarrow>
             (case strptime_rx fmt_ymd (unify end_date') of
                None \<Rightarrow> None
              | Some ed \<Rightarrow> Some (strftime_ymd sd, strftime_ymd ed)))"

fun extract_loop :: "rx list \<Rightarrow> ustr \<Rightarrow> ustr option \<times> ustr option" where
  "extract_loop [] text = (None, None)"
| "extract_loop (pattern # rest) text =
     (case re_search pattern text of
        None \<Rightarrow> extract_loop rest text
      | Some (cs, unmatched) \<Rightarrow>
          (case (group cs 1, group cs 2) of
             (Some start_date, Some end_date) \<Rightarrow>
               (case convert_groups start_date end_date of
                  Some (s, e) \<Rightarrow> (Some s, Some e)
                | None \<Rightarrow> extract_loop rest text)
           | _ \<Rightarrow> extract_loop rest text))"

definition extract_date_range :: "ustr option \<Rightarrow> ustr option \<times> ustr option" where
  "extract_date_range text =
     (case text of
        None \<Rightarrow> (None, None)
      | Some t \<Rightarrow>
          if t = [] then (None, None)
          else extract_loop patterns (py_join [c_space] (py_split_ws t)))"

definition normalize_date :: "ustr option \<Rightarrow> ustr option" where
  "normalize_date date_str =
     (case date_str of
        None \<Rightarrow> None
      | Some s \<Rightarrow>
          if s = [] then None
          else (let s1 = py_strip s;
                    s2 = py_replace ch_ri [] (py_replace ch_yue [c_dash] (py_replace ch_nian [c_dash] s1));
                    s3 = py_replace c_slash [c_dash] (py_replace c_dot [c_dash] s2)
                in map_option strftime_ymd (strptime_rx fmt_ymd s3)))"

text \<open>The three inputs of the date examples, by code point.\<close>

definition ex_single :: ustr where
  "ex_single = [50, 48, 50, 53, 24180, 51, 26376, 51, 49, 26085]"

definition ex_range :: ustr where
  "ex_range = [50, 48, 50, 53, 24180, 52, 26376, 56, 26085, 33267,
               50, 48, 50, 53, 24180, 52, 26376, 49, 55, 26085]"

definition ex_spaced :: ustr where
  "ex_spaced = [20844, 32, 31034, 32, 26399, 65306,
                50, 48, 50, 53, 24180, 52, 26376, 56, 26085, 33267,
                50, 48, 50, 53, 24180, 52, 26376, 49, 55, 26085]"

text \<open>The five domain substrings that both resolvers know (the Shaanxi domain differs
  between them), used to state on which URLs the two agree.\<close>

definition common_domains :: "ustr list" where
  "common_domains =
    [asc ''samr.gov.cn'', asc ''scjgj.beijing.gov.cn'', asc ''scjgj.cq.gov.cn'',
     asc ''scjgj.sh.gov.cn'', asc ''amr.gd.gov.cn'']"

section \<open>BaseParser.parse (parsers.py)\<close>

text \<open>
  \<open>parse\<close> calls the three extraction methods of the concrete parser in turn. Each call
  either returns a value or raises; \<open>parse\<close> catches every exception and returns \<open>None\<close>.
\<close>

datatype 'a outcome = Raises | Returns 'a

text \<open>The result dictionary, with its four keys.\<close>

record 'd parse_result =
  res_case_name :: ustr
  res_notice_start_date :: "'d option"
  res_notice_end_date :: "'d option"
  res_attachment_url :: "ustr option"

text \<open>
  \<open>not title\<close> holds for \<open>None\<close> and for the empty string and raises \<open>ParserException\<close>.
  The tests \<open>not start_date or not end_date\<close> and \<open>not attachment_url\<close> only log a
  warning. The later methods are not called once an earlier one has raised.
\<close>

definition parse ::
    "ustr option outcome \<Rightarrow> ('d option \<times> 'd option) outcome \<Rightarrow> ustr option outcome
       \<Rightarrow> 'd parse_result option" where
  "parse get_title get_date_range get_attachment_url =
     (case get_title of
        Raises \<Rightarrow> None
      | Returns None \<Rightarrow> None
      | Returns (Some title) \<Rightarrow>
          if title = [] then None
          else (case get_date_range of
                  Raises \<Rightarrow> None
                | Returns (start_date, end_date) \<Rightarrow>
                    (case get_attachment_url of
                       Raises \<Rightarrow> None
                     | Returns attachment_url \<Rightarrow>
                         Some \<lparr>res_case_name = title,
                               res_notice_start_date = start_date,
                               res_notice_end_date = end_date,
                               res_attachment_url = attachment_url\<rparr>)))"

section \<open>The cases table (models.py)\<close>

text \<open>
  A row of the table \<open>cases\<close>. \<open>rowid\<close> is the integer primary key \<open>id\<close>, which SQLite
  keeps unique; every other column is nullable. The type \<open>'d\<close> is the type of the stored
  date values.
\<close>

record 'd case_row =
  rowid :: nat
  case_name :: "ustr option"
  notice_start_date :: "'d option"
  notice_end_date :: "'d option"
  source_url :: "ustr option"
  region :: "ustr option"
  attachment_path :: "ustr option"
  created_at :: "nat option"

section \<open>deduplicate_by_source_url (deduplicate_db.py)\<close>

text \<open>\<open>GROUP BY source_url\<close>: the distinct values of the column; \<open>NULL\<close> is one group.\<close>

definition group_keys :: "'d case_row list \<Rightarrow> ustr option list" where
  "group_keys db = remdups (map source_url db)"

definition group_rows :: "ustr option \<Rightarrow> 'd case_row list \<Rightarrow> 'd case_row list" where
  "group_rows u db = filter (\<lambda>r. source_url r = u) db"

text \<open>Step 2: the groups with a non-null, non-empty \<open>source_url\<close> and more than one row.\<close>

definition find_duplicates :: "'d case_row list \<Rightarrow> (ustr option \<times> nat) list" where
  "find_duplicates db =
     filter (\<lambda>(u, count). 1 < count)
       (map (\<lambda>u. (u, length (group_rows u db)))
          (filter (\<lambda>u. u \<noteq> None \<and> u \<noteq> Some []) (group_keys db)))"

fun max_of :: "nat list \<Rightarrow> nat" where
  "max_of [] = 0"
| "max_of (x # xs) = max x (max_of xs)"

text \<open>\<open>SELECT MAX(rowid) FROM cases GROUP BY source_url\<close>.\<close>

definition max_rowids :: "'d case_row list \<Rightarrow> nat list" where
  "max_rowids db = map (\<lambda>u. max_of (map rowid (group_rows u db))) (group_keys db)"

text \<open>\<open>DELETE FROM cases WHERE rowid NOT IN (...)\<close>.\<close>

definition delete_sql :: "'d case_row list \<Rightarrow> 'd case_row list" where
  "delete_sql db = filter (\<lambda>r. rowid r \<in> set (max_rowids db)) db"

text \<open>
  The whole pass, as the table before and after. \<open>db_exists\<close> says that the database file
  is there; \<open>sql_ok\<close> that no statement raises (a raised \<open>sqlite3.Error\<close> rolls back, any
  other exception leaves the transaction uncommitted: the table is unchanged).
\<close>

definition deduplicate_by_source_url ::
    "bool \<Rightarrow> bool \<Rightarrow> 'd case_row list \<Rightarrow> 'd case_row list" where
  "deduplicate_by_source_url db_exists sql_ok db =
     (if \<not> db_exists then db
      else if \<not> sql_ok then db
      else if length db = 0 then db
      else if length (find_duplicates db) > 0 then delete_sql db
      else db)"



section \<open>Files, network and downloads\<close>

text \<open>
  The attachment code reads and writes the local file system and fetches from the
  network. The file system is a map from paths to file contents. The network is what a
  server does for a URL: the connection fails, or a response arrives with a status, an
  optional \<open>Content-Length\<close> and a body, which is delivered whole or breaks off after some
  chunks. The disk may have room for a bounded number of bytes only; a write beyond it
  raises after the bytes that fit. \<open>fetched\<close> logs every request sent.
  Creating the download directory (\<open>os.makedirs(..., exist_ok=True)\<close>) and removing an
  existing file are taken to succeed.
\<close>

type_synonym bytes = "nat list"

datatype body = Complete "bytes list" | Broken "bytes list"

datatype http = ConnectionError | Response nat "nat option" body

record env =
  net :: "ustr \<Rightarrow> http"
  disk_room :: "nat option"

record world =
  files :: "ustr \<Rightarrow> bytes option"
  fetched :: "ustr list"

text \<open>\<open>f.write(data)\<close>: the bytes that reach the file, and whether the write succeeded.\<close>

definition write_all :: "nat option \<Rightarrow> bytes \<Rightarrow> bytes \<times> bool" where
  "write_all room data =
     (case room of
        None \<Rightarrow> (data, True)
      | Some n \<Rightarrow> if length data \<le> n then (data, True) else (take n data, False))"

definition put_file :: "ustr \<Rightarrow> bytes \<Rightarrow> world \<Rightarrow> world" where
  "put_file p data w = w\<lparr>files := (files w)(p \<mapsto> data)\<rparr>"

definition exists :: "world \<Rightarrow> ustr \<Rightarrow> bool" where
  "exists w p \<longleftrightarrow> files w p \<noteq> None"

definition request :: "ustr \<Rightarrow> world \<Rightarrow> world" where
  "request url w = w\<lparr>fetched := fetched w @ [url]\<rparr>"

text \<open>\<open>os.path.join(a, b)\<close> on POSIX, for two components.\<close>

definition path_join :: "ustr \<Rightarrow> ustr \<Rightarrow> ustr" where
  "path_join a b =
     (if is_prefix [c_slash] b then b
      else if a = [] \<or> last a = c_slash then a @ b
      else a @ [c_slash] @ b)"

text \<open>\<open>s.lower()\<close>, folding the ASCII letters (the model leaves other cased letters as
  they are); \<open>s.endswith(t)\<close>; the last part of \<open>s.split(c)\<close>.\<close>

definition py_lower :: "ustr \<Rightarrow> ustr" where
  "py_lower s = map (\<lambda>c. if 65 \<le> c \<and> c \<le> 90 then c + 32 else c) s"

definition endswith :: "ustr \<Rightarrow> ustr \<Rightarrow> bool" where
  "endswith s t = is_prefix (rev t) (rev s)"

definition last_part :: "nat \<Rightarrow> ustr \<Rightarrow> ustr" where
  "last_part c s = (case rev (py_split_on c s) of [] \<Rightarrow> [] | p # ps \<Rightarrow> p)"

subsection \<open>BeijingScraper.download_attachment (beijing_scraper.py)\<close>

text \<open>The \<open>except\<close> branch: remove the file at the target path if there is one, return
  \<open>False\<close>.\<close>

definition remove_partial :: "ustr \<Rightarrow> world \<Rightarrow> bool \<times> world" where
  "remove_partial save_path w =
     (False, if exists w save_path then w\<lparr>files := (files w)(save_path := None)\<rparr> else w)"

text \<open>
  \<open>session.get(url, stream=True)\<close>, \<open>raise_for_status()\<close> (raises for a status from 400 to
  599), then \<open>open(save_path, 'wb')\<close>, which creates or empties the file. Without a
  \<open>Content-Length\<close> the whole \<open>response.content\<close> is read first and written in one call;
  otherwise the chunks are written as they arrive.
\<close>

definition Beijing_download_attachment :: "env \<Rightarrow> ustr \<Rightarrow> ustr \<Rightarrow> world \<Rightarrow> bool \<times> world" where
  "Beijing_download_attachment e url save_path w =
     (let w1 = request url w in
      case net e url of
        ConnectionError \<Rightarrow> remove_partial save_path w1
      | Response status clen body \<Rightarrow>
          if 400 \<le> status \<and> status < 600 then remove_partial save_path w1
          else
            (let total_size = (case clen of None \<Rightarrow> 0 | Some n \<Rightarrow> n);
                 w2 = put_file save_path [] w1
             in case body of
                  Complete chunks \<Rightarrow>
                    (case write_all (disk_room e) (concat chunks) of
                       (written, ok) \<Rightarrow>
                         if ok then (True, put_file save_path written w2)
                         else remove_partial save_path (put_file save_path written w2))
                | Broken chunks \<Rightarrow>
                    if total_size = 0 then remove_partial save_path w2
                    else remove_partial save_path
                           (put_file save_path (fst (write_all (disk_room e) (concat chunks))) w2)))"

subsection \<open>ShanghaiScraper.download_attachment (shanghai_scraper.py)\<close>

definition Shanghai_download_attachment :: "env \<Rightarrow> ustr \<Rightarrow> ustr \<Rightarrow> world \<Rightarrow> bool \<times> world" where
  "Shanghai_download_attachment e url save_path w =
     (if exists w save_path then (True, w)
      else
        (let w1 = request url w in
         case net e url of
           ConnectionError \<Rightarrow> remove_partial save_path w1
         | Response status clen body \<Rightarrow>
             if 400 \<le> status \<and> status < 600 then remove_partial save_path w1
             else
               (let w2 = put_file save_path [] w1 in
                case body of
                  Complete chunks \<Rightarrow>
                    (case write_all (disk_room e) (concat chunks) of
                       (written, ok) \<Rightarrow>
                         if ok then (True, put_file save_path written w2)
                         else remove_partial save_path (put_file save_path written w2))
                | Broken chunks \<Rightarrow>
                    remove_partial save_path
                      (put_file save_path (fst (write_all (disk_room e) (concat chunks))) w2))))"

subsection \<open>CaseScraper.download_attachment (scraper.py)\<close>

text \<open>The characters removed from the case name: backslash, slash, colon, asterisk,
  question mark, double quote, angle brackets, bar and blank.\<close>

definition illegal_chars :: "nat list" where
  "illegal_chars = [92, 47, 58, 42, 63, 34, 60, 62, 124, 32]"

definition safe_title_of :: "ustr \<Rightarrow> ustr" where
  "safe_title_of case_name' =
     (let s1 = fold (\<lambda>c s. py_replace c [] s) illegal_chars case_name';
          s2 = py_strip s1
      in if length s2 > 100 then take 97 s2 @ asc ''...'' else s2)"

definition file_ext_of :: "ustr \<Rightarrow> ustr" where
  "file_ext_of url =
     (if endswith (py_lower url) (asc ''.docx'') then asc ''.docx''
      else if endswith (py_lower url) (asc ''.pdf'') then asc ''.pdf''
      else asc ''.doc'')"

definition file_name_of :: "ustr \<Rightarrow> ustr \<Rightarrow> ustr" where
  "file_name_of url case_name' = safe_title_of case_name' @ file_ext_of url"

text \<open>
  The parameter \<open>case_name\<close> is written \<open>case_name'\<close>, the plain name being the
  column of the table.
  The function returns the file name, not the path. If the file exists it returns at
  once (the loop that would add a numeric suffix is then never entered). Otherwise it
  sends the request; on status 200 it opens the file, reads the whole body and writes
  it. Every exception ends in \<open>return None\<close>; nothing is removed.
\<close>

definition CaseScraper_download_attachment ::
    "env \<Rightarrow> ustr \<Rightarrow> ustr \<Rightarrow> ustr \<Rightarrow> world \<Rightarrow> ustr option \<times> world" where
  "CaseScraper_download_attachment e download_path url case_name' w =
     (let file_name = file_name_of url case_name';
          file_path = path_join download_path file_name
      in if exists w file_path then (Some file_name, w)
         else
           (let w1 = request url w in
            case net e url of
              ConnectionError \<Rightarrow> (None, w1)
            | Response status clen body \<Rightarrow>
                if status = 200 then
                  (let w2 = put_file file_path [] w1 in
                   case body of
                     Broken chunks \<Rightarrow> (None, w2)
                   | Complete chunks \<Rightarrow>
                       (case write_all (disk_room e) (concat chunks) of
                          (written, ok) \<Rightarrow>
                            (if ok then Some file_name else None,
                             put_file file_path written w2)))
                else (None, w1)))"

subsection \<open>AttachmentDownloader.download_attachment (downloader.py)\<close>

text \<open>
  \<open>session.get(url)\<close> without streaming reads the whole body before it returns, so a broken
  body raises before the file is opened. The file is written in one call; an exception
  ends in \<open>return None\<close> and nothing is removed.
\<close>

definition AttachmentDownloader_download_attachment ::
    "env \<Rightarrow> ustr \<Rightarrow> ustr option \<Rightarrow> ustr \<Rightarrow> ustr \<Rightarrow> world \<Rightarrow> ustr option \<times> world" where
  "AttachmentDownloader_download_attachment e DOWNLOAD_PATH url case_name' region_dir w =
     (case url of
        None \<Rightarrow> (None, w)
      | Some u \<Rightarrow>
          if u = [] then (None, w)
          else
            (let download_dir = path_join DOWNLOAD_PATH region_dir;
                 file_path = path_join download_dir (case_name' @ asc ''.doc'');
                 w1 = request u w
             in case net e u of
                  ConnectionError \<Rightarrow> (None, w1)
                | Response status clen (Broken chunks) \<Rightarrow> (None, w1)
                | Response status clen (Complete chunks) \<Rightarrow>
                    if status = 200 then
                      (case write_all (disk_room e) (concat chunks) of
                         (written, ok) \<Rightarrow>
                           (if ok then Some file_path else None,
                            put_file file_path written (put_file file_path [] w1)))
                    else (None, w1)))"

section \<open>Reconciliation\<close>

subsection \<open>CaseScraper.save_to_db (scraper.py)\<close>

text \<open>
  The argument \<open>case_data\<close> is a dictionary. Three of its keys are read with a default
  (\<open>title\<close>, \<open>url\<close>, \<open>region\<close>), so for them the model tells a missing key (\<open>None\<close>) from a
  key whose value is \<open>None\<close> (\<open>Some None\<close>); the other keys are read with \<open>get\<close>, which
  gives \<open>None\<close> in both cases.
\<close>

record 'd case_data =
  cd_title :: "ustr option option"
  cd_case_name :: "ustr option"
  cd_url :: "ustr option option"
  cd_source_url :: "ustr option"
  cd_attachment_path :: "ustr option"
  cd_region :: "ustr option option"
  cd_notice_start_date :: "'d option"
  cd_notice_end_date :: "'d option"

definition dict_get :: "'a option \<Rightarrow> 'a \<Rightarrow> 'a" where
  "dict_get entry dflt = (case entry of Some v \<Rightarrow> v | None \<Rightarrow> dflt)"

text \<open>SQL's \<open>column = :param\<close>: true only when both sides are non-null and equal.\<close>

definition sql_eq :: "'a option \<Rightarrow> 'a option \<Rightarrow> bool" where
  "sql_eq a b = (case (a, b) of (Some x, Some y) \<Rightarrow> x = y | _ \<Rightarrow> False)"

text \<open>The \<open>SET\<close> clause of the \<open>UPDATE\<close>, one \<open>CASE\<close> per column. The comparison
  \<open>:region != ''\<close> is not true for a null parameter.\<close>

definition update_sql :: "'d option \<Rightarrow> 'd option \<Rightarrow> ustr option \<Rightarrow> 'd case_row \<Rightarrow> 'd case_row" where
  "update_sql p_start p_end p_region r =
     r\<lparr>notice_start_date :=
         (if notice_start_date r = None \<and> p_start \<noteq> None then p_start else notice_start_date r),
       notice_end_date :=
         (if notice_end_date r = None \<and> p_end \<noteq> None then p_end else notice_end_date r),
       region :=
         (if (region r = None \<or> region r = Some []) \<and> (p_region \<noteq> None \<and> p_region \<noteq> Some [])
          then p_region else region r)\<rparr>"

text \<open>A new row gets the next row id. \<open>now\<close> is the value of \<open>CURRENT_TIMESTAMP\<close>.\<close>

definition next_rowid :: "'d case_row list \<Rightarrow> nat" where
  "next_rowid db = Suc (max_of (map rowid db))"

text \<open>
  \<open>db_ok\<close> says that no statement and no commit raises; an exception rolls the
  transaction back and the function returns \<open>False\<close>. The \<open>UPDATE\<close> changes every row
  with the case name.
\<close>

definition save_to_db ::
    "bool \<Rightarrow> nat \<Rightarrow> 'd case_data \<Rightarrow> 'd case_row list \<Rightarrow> bool \<times> 'd case_row list" where
  "save_to_db db_ok now case_data db =
     (let p_case_name = dict_get (cd_title case_data) (cd_case_name case_data);
          p_source_url = dict_get (cd_url case_data) (cd_source_url case_data);
          p_attachment_path = cd_attachment_path case_data;
          p_region = dict_get (cd_region case_data) (Some []);
          p_start = cd_notice_start_date case_data;
          p_end = cd_notice_end_date case_data
      in if \<not> db_ok then (False, db)
         else if list_ex (\<lambda>r. sql_eq (case_name r) p_case_name) db then
           (True, map (\<lambda>r. if sql_eq (case_name r) p_case_name
                            then update_sql p_start p_end p_region r else r) db)
         else
           (True, db @ [\<lparr>rowid = next_rowid db, case_name = p_case_name,
                         notice_start_date = p_start, notice_end_date = p_end,
                         source_url = p_source_url, region = p_region,
                         attachment_path = p_attachment_path, created_at = Some now\<rparr>]))"

subsection \<open>The per-source scrapers\<close>

text \<open>
  What \<open>parse_detail_page\<close> returns, as far as \<open>process_case\<close> reads it. The dates are
  \<open>datetime\<close> objects, which are always true in a condition, so \<open>not d\<close> holds for
  \<open>None\<close> only.
\<close>

record 'd detail_data =
  dd_start_date :: "'d option"
  dd_end_date :: "'d option"
  dd_attachment_url :: "ustr option"
  dd_attachment_name :: "ustr option"

text \<open>A string in a condition: \<open>None\<close> and the empty string are false.\<close>

definition truthy :: "ustr option \<Rightarrow> bool" where
  "truthy s \<longleftrightarrow> s \<noteq> None \<and> s \<noteq> Some []"

text \<open>\<open>query(Case).filter_by(case_name=title).first()\<close> gives the first row with the
  name; a change of that object reaches the table at the commit.\<close>

definition first_by_name :: "ustr \<Rightarrow> 'd case_row list \<Rightarrow> 'd case_row option" where
  "first_by_name title db = find (\<lambda>r. case_name r = Some title) db"

fun upd_first :: "('a \<Rightarrow> bool) \<Rightarrow> 'a \<Rightarrow> 'a list \<Rightarrow> 'a list" where
  "upd_first P y [] = []"
| "upd_first P y (x # xs) = (if P x then y # xs else x # upd_first P y xs)"

definition attachment_dir :: ustr where
  "attachment_dir = asc ''data/attachments''"

text \<open>\<open>re.sub(r'[\\/:*?"<>|]', '_', file_name)\<close>.\<close>

definition sub_illegal :: "ustr \<Rightarrow> ustr" where
  "sub_illegal s = map (\<lambda>c. if c \<in> set [92, 47, 58, 42, 63, 34, 60, 62, 124] then 95 else c) s"

subsection \<open>BeijingScraper.process_case (beijing_scraper.py)\<close>

text \<open>
  The attachment step: the path is built from the case title and the extension of the
  link; the file is downloaded unless it exists; the result of
  \<open>download_attachment\<close> is not looked at.
\<close>

definition Beijing_attachment_step ::
    "env \<Rightarrow> ustr \<Rightarrow> 'd detail_data \<Rightarrow> world \<Rightarrow> ustr option \<times> world" where
  "Beijing_attachment_step e case_title dd w =
     (case dd_attachment_url dd of
        None \<Rightarrow> (None, w)
      | Some au \<Rightarrow>
          if au = [] then (None, w)
          else
            (let file_ext = py_lower (last_part c_dot au);
                 file_name = sub_illegal (case_title @ [c_dot] @ file_ext);
                 p = path_join attachment_dir file_name
             in if exists w p then (Some p, w)
                else (Some p, snd (Beijing_download_attachment e au p w))))"

text \<open>The update of an existing record; the flag says whether anything changed.\<close>

definition Beijing_update :: "'d detail_data \<Rightarrow> 'd case_row \<Rightarrow> 'd case_row \<times> bool" where
  "Beijing_update dd existing_case =
     (let fix_region = (region existing_case \<noteq> Some zh_beijing);
          r1 = (if fix_region then existing_case\<lparr>region := Some zh_beijing\<rparr> else existing_case);
          fill_start = (notice_start_date existing_case = None \<and> dd_start_date dd \<noteq> None);
          r2 = (if fill_start then r1\<lparr>notice_start_date := dd_start_date dd\<rparr> else r1);
          fill_end = (notice_end_date existing_case = None \<and> dd_end_date dd \<noteq> None);
          r3 = (if fill_end then r2\<lparr>notice_end_date := dd_end_date dd\<rparr> else r2)
      in (r3, fix_region \<or> fill_start \<or> fill_end))"

text \<open>
  \<open>detail\<close> is the result of \<open>parse_detail_page\<close> (\<open>None\<close> for a failure); \<open>commit_ok\<close>
  says that the commit does not raise (a failed commit is rolled back). The result is the
  flag "new case", the table and the world.
\<close>

definition Beijing_process_case ::
    "env \<Rightarrow> bool \<Rightarrow> nat \<Rightarrow> ustr \<Rightarrow> ustr \<Rightarrow> 'd detail_data option \<Rightarrow> 'd case_row list \<Rightarrow> world
       \<Rightarrow> bool \<times> 'd case_row list \<times> world" where
  "Beijing_process_case e commit_ok now case_title case_url detail db w =
     (case detail of
        None \<Rightarrow> (False, db, w)
      | Some dd \<Rightarrow>
          (case Beijing_attachment_step e case_title dd w of
             (attachment_path', w') \<Rightarrow>
               (case first_by_name case_title db of
                  Some existing_case \<Rightarrow>
                    (case Beijing_update dd existing_case of
                       (r, need_update) \<Rightarrow>
                         (False,
                          if need_update \<and> commit_ok
                          then upd_first (\<lambda>x. case_name x = Some case_title) r db else db,
                          w'))
                | None \<Rightarrow>
                    if commit_ok then
                      (True,
                       db @ [\<lparr>rowid = next_rowid db, case_name = Some case_title,
                              notice_start_date = dd_start_date dd,
                              notice_end_date = dd_end_date dd,
                              source_url = Some case_url, region = Some zh_beijing,
                              attachment_path = attachment_path', created_at = Some now\<rparr>],
                       w')
                    else (False, db, w'))))"

subsection \<open>ShanghaiScraper.process_case (shanghai_scraper.py)\<close>

text \<open>
  The attachment is downloaded only for a new case or for an existing case without an
  attachment path, and the path is kept only when the download reports success.
\<close>

definition Shanghai_attachment_step ::
    "env \<Rightarrow> 'd case_row option \<Rightarrow> 'd detail_data \<Rightarrow> world \<Rightarrow> ustr option \<times> world" where
  "Shanghai_attachment_step e existing_case dd w =
     (case (dd_attachment_url dd, dd_attachment_name dd) of
        (Some au, Some file_name) \<Rightarrow>
          if au \<noteq> [] \<and> file_name \<noteq> [] then
            (let save_path = path_join attachment_dir file_name in
             if existing_case = None \<or> \<not> truthy (Option.bind existing_case attachment_path) then
               (case Shanghai_download_attachment e au save_path w of
                  (ok, w') \<Rightarrow> (if ok then Some save_path else None, w'))
             else (None, w))
          else (None, w)
      | _ \<Rightarrow> (None, w))"

definition Shanghai_update ::
    "'d detail_data \<Rightarrow> ustr option \<Rightarrow> 'd case_row \<Rightarrow> 'd case_row \<times> bool" where
  "Shanghai_update dd attachment_path' existing_case =
     (let fill_start = (notice_start_date existing_case = None \<and> dd_start_date dd \<noteq> None);
          r1 = (if fill_start then existing_case\<lparr>notice_start_date := dd_start_date dd\<rparr>
                else existing_case);
          fill_end = (notice_end_date existing_case = None \<and> dd_end_date dd \<noteq> None);
          r2 = (if fill_end then r1\<lparr>notice_end_date := dd_end_date dd\<rparr> else r1);
          fix_region = (region existing_case \<noteq> Some zh_shanghai);
          r3 = (if fix_region then r2\<lparr>region := Some zh_shanghai\<rparr> else r2);
          fill_att = (truthy attachment_path' \<and> \<not> truthy (attachment_path existing_case));
          r4 = (if fill_att then r3\<lparr>attachment_path := attachment_path'\<rparr> else r3)
      in (r4, fill_start \<or> fill_end \<or> fix_region \<or> fill_att))"

definition Shanghai_process_case ::
    "env \<Rightarrow> bool \<Rightarrow> nat \<Rightarrow> ustr \<Rightarrow> ustr \<Rightarrow> 'd detail_data option \<Rightarrow> 'd case_row list \<Rightarrow> world
       \<Rightarrow> bool \<times> 'd case_row list \<times> world" where
  "Shanghai_process_case e commit_ok now case_title case_url detail db w =
     (case detail of
        None \<Rightarrow> (False, db, w)
      | Some dd \<Rightarrow>
          (case Shanghai_attachment_step e (first_by_name case_title db) dd w of
             (attachment_path', w') \<Rightarrow>
               (case first_by_name case_title db of
                  Some existing_case \<Rightarrow>
                    (case Shanghai_update dd attachment_path' existing_case of
                       (r, need_update) \<Rightarrow>
                         (False,
                          if need_update \<and> commit_ok
                          then upd_first (\<lambda>x. case_name x = Some case_title) r db else db,
                          w'))
                | None \<Rightarrow>
                    if commit_ok then
                      (True,
                       db @ [\<lparr>rowid = next_rowid db, case_name = Some case_title,
                              notice_start_date = dd_start_date dd,
                              notice_end_date = dd_end_date dd,
                              source_url = Some case_url, region = Some zh_shanghai,
                              attachment_path = attachment_path', created_at = Some now\<rparr>],
                       w')
                    else (False, db, w'))))"

subsection \<open>The fill policy, as the specification words it\<close>

text \<open>
  A field is filled monotonically by a reconciliation that carries the new value \<open>new\<close>,
  when a non-null stored value stays as it is, and a changed value was null before and is
  the non-null new value after.
\<close>

definition fill_only :: "'a option \<Rightarrow> 'a option \<Rightarrow> 'a option \<Rightarrow> bool" where
  "fill_only old new stored \<longleftrightarrow>
     (old \<noteq> None \<longrightarrow> stored = old) \<and> (stored \<noteq> old \<longrightarrow> old = None \<and> new \<noteq> None \<and> stored = new)"


section \<open>Values for the examples\<close>

definition d1 :: datetime where
  "d1 = \<lparr>year = 2025, month = 4, day = 8, hour = 0, minute = 0, second = 0\<rparr>"

definition d2 :: datetime where
  "d2 = \<lparr>year = 2025, month = 4, day = 9, hour = 0, minute = 0, second = 0\<rparr>"

text \<open>A stored record of case \<open>x\<close> with a start date, the region Beijing and an attachment.\<close>

definition example_stored :: "datetime case_row" where
  "example_stored =
     \<lparr>rowid = 1, case_name = Some (asc ''x''), notice_start_date = Some d1,
      notice_end_date = None, source_url = Some (asc ''a''), region = Some zh_beijing,
      attachment_path = Some (asc ''x.doc''), created_at = None\<rparr>"

text \<open>A sighting of case \<open>x\<close> by a source of region Shanghai, with other dates.\<close>

definition example_sighting :: "datetime case_data" where
  "example_sighting =
     \<lparr>cd_title = Some (Some (asc ''x'')), cd_case_name = None, cd_url = Some (Some (asc ''a'')),
      cd_source_url = None, cd_attachment_path = Some (asc ''y.doc''),
      cd_region = Some (Some zh_shanghai), cd_notice_start_date = Some d2,
      cd_notice_end_date = Some d2\<rparr>"

definition example_detail :: "datetime detail_data" where
  "example_detail =
     \<lparr>dd_start_date = Some d2, dd_end_date = Some d2,
      dd_attachment_url = Some (asc ''http://h/f.pdf''), dd_attachment_name = Some (asc ''f.pdf'')\<rparr>"

text \<open>A server that delivers a two-chunk body, one whose body breaks off after the first
  chunk, and a disk with room for two bytes.\<close>

definition good_env :: env where
  "good_env = \<lparr>net = (\<lambda>u. Response 200 None (Complete [[80, 75], [3]])), disk_room = None\<rparr>"

definition broken_env :: env where
  "broken_env = \<lparr>net = (\<lambda>u. Response 200 (Some 3) (Broken [[80, 75]])), disk_room = None\<rparr>"

definition full_disk_env :: env where
  "full_disk_env = \<lparr>net = (\<lambda>u. Response 200 None (Complete [[80, 75], [3]])), disk_room = Some 2\<rparr>"

definition empty_world :: world where
  "empty_world = \<lparr>files = (\<lambda>p. None), fetched = []\<rparr>"

section \<open>Pagination with the browser (scraper.py, class CaseScraper)\<close>

text \<open>
  The browser page is a value of some type \<open>'b\<close>; what the Playwright calls do with it is
  given by a record of functions. A call that raises (a timeout, for instance) is
  \<open>Raises\<close>.
  \<^item> \<open>first_title b\<close>: \<open>query_selector('.content-3-left-text a')\<close> and \<open>inner_text()\<close> of
    the element; \<open>Returns None\<close> when there is no such element.
  \<^item> \<open>next_button b\<close>: \<open>wait_for_selector('.layui-laypage-next')\<close>; \<open>Returns False\<close> when
    the call returns no element.
  \<^item> \<open>click b\<close>: the page after \<open>next_button.click()\<close>, and whether the click returned.
  \<^item> \<open>content_ready b\<close>: \<open>wait_for_selector('.content-3-left-text')\<close> returned.
  \<^item> \<open>goto url b\<close>: the page after \<open>page.goto(url)\<close>, and whether it returned.
  \<^item> \<open>case_links b\<close>: the list \<open>results\<close> of titles and links that the loop over
    \<open>query_selector_all('.content-3-left-text a')\<close> collects.
\<close>

record 'b playwright =
  first_title :: "'b \<Rightarrow> ustr option outcome"
  next_button :: "'b \<Rightarrow> bool outcome"
  click :: "'b \<Rightarrow> 'b \<times> bool"
  content_ready :: "'b \<Rightarrow> bool"
  goto :: "ustr \<Rightarrow> 'b \<Rightarrow> 'b \<times> bool"
  case_links :: "'b \<Rightarrow> (ustr \<times> ustr) list"

text \<open>The scraper's state: the page object (\<open>None\<close> before initialisation), the page
  number it believes to be on, and the number of clicks on "next" so far.\<close>

record 'b scraper =
  page :: "'b option"
  current_page :: "nat option"
  clicks :: nat

text \<open>
  \<open>_turn_to_next_page\<close>. Every exception ends in the \<open>except\<close> branch, which resets
  \<open>current_page\<close> and returns \<open>False\<close>; a missing element returns \<open>False\<close> without the
  reset. The fingerprint is the title of the first link, before and after the click.
\<close>

definition reset :: "'b scraper \<Rightarrow> bool \<times> 'b scraper" where
  "reset s = (False, s\<lparr>current_page := None\<rparr>)"

definition turn_to_next_page :: "'b playwright \<Rightarrow> 'b scraper \<Rightarrow> bool \<times> 'b scraper" where
  "turn_to_next_page pw s =
     (case page s of
        None \<Rightarrow> reset s
      | Some b \<Rightarrow>
          (case first_title pw b of
             Raises \<Rightarrow> reset s
           | Returns None \<Rightarrow> (False, s)
           | Returns (Some title_before) \<Rightarrow>
               (case next_button pw b of
                  Raises \<Rightarrow> reset s
                | Returns False \<Rightarrow> (False, s)
                | Returns True \<Rightarrow>
                    (case click pw b of
                       (b', clicked) \<Rightarrow>
                         (let s' = s\<lparr>page := Some b', clicks := Suc (clicks s)\<rparr> in
                          if \<not> clicked then reset s'
                          else if \<not> content_ready pw b' then reset s'
                          else
                            (case first_title pw b' of
                               Raises \<Rightarrow> reset s'
                             | Returns None \<Rightarrow> (False, s')
                             | Returns (Some new_title) \<Rightarrow>
                                 if new_title = title_before then reset s'
                                 else
                                   (case current_page s' of
                                      None \<Rightarrow> reset s'
                                    | Some n \<Rightarrow> (True, s'\<lparr>current_page := Some (Suc n)\<rparr>))))))))"

text \<open>The loop \<open>for i in range(page_no - 1)\<close>, left at the first failed turn.\<close>

fun turn_times :: "'b playwright \<Rightarrow> nat \<Rightarrow> 'b scraper \<Rightarrow> bool \<times> 'b scraper" where
  "turn_times pw 0 s = (True, s)"
| "turn_times pw (Suc k) s =
     (case turn_to_next_page pw s of
        (False, s') \<Rightarrow> (False, s')
      | (True, s') \<Rightarrow> turn_times pw k s')"

text \<open>The last part of the loop body: read the list of the page; an empty list or an
  exception costs a retry.\<close>

definition read_list :: "'b playwright \<Rightarrow> 'b scraper \<Rightarrow> (ustr \<times> ustr) list option" where
  "read_list pw s =
     (case page s of
        None \<Rightarrow> None
      | Some b \<Rightarrow>
          if content_ready pw b \<and> case_links pw b \<noteq> [] then Some (case_links pw b) else None)"

text \<open>
  The \<open>while retry_count < max_retries\<close> loop, with the number of retries left as its
  first argument: each pass returns or uses one retry up.
\<close>

fun list_page_loop ::
    "nat \<Rightarrow> 'b playwright \<Rightarrow> ustr \<Rightarrow> nat \<Rightarrow> 'b scraper \<Rightarrow> (ustr \<times> ustr) list option \<times> 'b scraper" where
  "list_page_loop 0 pw url page_no s = (None, s)"
| "list_page_loop (Suc retries) pw url page_no s =
     (case page s of
        None \<Rightarrow> list_page_loop retries pw url page_no (s\<lparr>current_page := None\<rparr>)
      | Some b \<Rightarrow>
          (case current_page s of
             None \<Rightarrow>
               (case goto pw url b of
                  (b', False) \<Rightarrow> list_page_loop retries pw url page_no (s\<lparr>page := Some b'\<rparr>)
                | (b', True) \<Rightarrow>
                    (let s1 = s\<lparr>page := Some b', current_page := Some 1\<rparr> in
                     case (if page_no > 1 then turn_times pw (page_no - 1) s1 else (True, s1)) of
                       (False, s2) \<Rightarrow> (None, s2)
                     | (True, s2) \<Rightarrow>
                         (case read_list pw s2 of
                            Some results \<Rightarrow> (Some results, s2)
                          | None \<Rightarrow> list_page_loop retries pw url page_no s2)))
           | Some cur \<Rightarrow>
               (case (if page_no > cur then turn_to_next_page pw s else (True, s)) of
                  (False, s2) \<Rightarrow> (None, s2)
                | (True, s2) \<Rightarrow>
                    (case read_list pw s2 of
                       Some results \<Rightarrow> (Some results, s2)
                     | None \<Rightarrow> list_page_loop retries pw url page_no s2))))"

definition parse_list_page_playwright ::
    "'b playwright \<Rightarrow> ustr \<Rightarrow> nat \<Rightarrow> 'b scraper \<Rightarrow> (ustr \<times> ustr) list option \<times> 'b scraper" where
  "parse_list_page_playwright pw url page_no s =
     (if page s = None then (None, s) else list_page_loop 3 pw url page_no s)"

text \<open>A site for the examples: pages are numbered, the title of page \<open>n\<close> is the one-letter
  string of code \<open>n\<close>, loading the list shows page 1, and the "next" control of page \<open>k\<close>
  is stuck.\<close>

definition stuck_site :: "nat \<Rightarrow> nat playwright" where
  "stuck_site k =
     \<lparr>first_title = (\<lambda>b. Returns (Some [b])),
      next_button = (\<lambda>b. Returns True),
      click = (\<lambda>b. (if b = k then k else Suc b, True)),
      content_ready = (\<lambda>b. True),
      goto = (\<lambda>url b. (1, True)),
      case_links = (\<lambda>b. [([b], [b])])\<rparr>"

section \<open>Evaluation rules\<close>

lemmas char_defs =
  is_digit_def is_space_def c_dash_def c_dot_def c_colon_def c_space_def c_slash_def
  ch_nian_def ch_yue_def ch_ri_def ch_zhi_def ch_dao_def ch_colon_def ch_lparen_def
  ch_rparen_def ch_gong_def ch_shi_def ch_qi_def ch_xian_def

lemmas rx_defs =
  fmt_ymd_def fmt_ymd_hms_def fmt_compact_def rx_Y_def rx_m_def rx_d_def rx_H_def rx_M_def
  rx_S_def d19_def

lemmas strp_defs =
  strptime_rx_def re_match_def field_def group_def py_int_def py_strip_def mk_datetime_def
  days_in_month_def

lemmas range_defs =
  extract_date_range_def patterns_def pat1_def date_full_def ws_def py_split_ws_def
  convert_groups_def first_part_def unify_def py_replace_def strftime_ymd_def pad2_def
  pad4_def asc_def

lemmas zh_defs =
  zh_zongju_def zh_beijing_def zh_chongqing_def zh_shanghai_def zh_guangdong_def
  zh_shaanxi_def zh_unknown_def zh_samr_full_def

section \<open>The page type resolver\<close>

lemma identify_page_type_first_match:
  "identify_page_type url = first_match resolver_table url"
  by (simp add: identify_page_type_def resolver_table_def)

lemma identify_page_type_range:
  "identify_page_type url \<in>
     {None, Some (asc ''samr''), Some (asc ''beijing''), Some (asc ''chongqing''),
      Some (asc ''shanghai''), Some (asc ''guangdong''), Some (asc ''shaanxi'')}"
  by (simp add: identify_page_type_def)

lemma get_region_range:
  "get_region pt \<in>
     {zh_unknown, zh_zongju, zh_beijing, zh_chongqing, zh_shanghai, zh_guangdong, zh_shaanxi}"
  unfolding get_region_def REGION_MAP_def
  by (simp split: option.split)

text \<open>
  C9. The resolver is a total function of the URL: its result is one of the six source
  identifiers or the unresolved value \<open>None\<close>. It is the first-match scan of the ordered
  domain table, as the specification words it. The region lookup returns one of the six
  labels or the unknown label for every argument, and the unknown label for the
  unresolved value.
\<close>

theorem page_type_resolver_total_and_ordered:
  "identify_page_type url = first_match resolver_table url
   \<and> identify_page_type url \<in>
       {None, Some (asc ''samr''), Some (asc ''beijing''), Some (asc ''chongqing''),
        Some (asc ''shanghai''), Some (asc ''guangdong''), Some (asc ''shaanxi'')}
   \<and> get_region pt \<in>
       {zh_unknown, zh_zongju, zh_beijing, zh_chongqing, zh_shanghai, zh_guangdong, zh_shaanxi}
   \<and> get_region None = zh_unknown"
  using identify_page_type_first_match [of url] identify_page_type_range [of url]
    get_region_range [of pt]
  by (simp add: get_region_def)

section \<open>Agreement of the two resolvers\<close>

text \<open>
  C10, as stated, fails: a URL of the Shaanxi site \<open>snamr.shaanxi.gov.cn\<close> is resolved by
  \<open>identify_page_type\<close> and not by \<open>get_page_type\<close>, whose table names
  \<open>scjgj.shaanxi.gov.cn\<close>; and the two region maps give the identifier \<open>samr\<close> different
  labels.
\<close>

theorem resolvers_disagree:
  "identify_page_type (asc ''https://snamr.shaanxi.gov.cn/'') = Some (asc ''shaanxi'')
   \<and> get_page_type (asc ''https://snamr.shaanxi.gov.cn/'') = None
   \<and> get_region (Some (asc ''samr'')) = [24635, 23616]
   \<and> get_region_name (Some (asc ''samr''))
       = [22269, 23478, 24066, 22330, 30417, 30563, 31649, 29702, 24635, 23616]"
  by (simp add: identify_page_type_def get_page_type_def domain_map_def get_region_def
      get_region_name_def REGION_MAP_def region_map_def asc_def zh_defs)

lemma get_page_type_unfold:
  "get_page_type url =
    (if contains (asc ''scjgj.beijing.gov.cn'') url then Some (asc ''beijing'')
     else if contains (asc ''scjgj.sh.gov.cn'') url then Some (asc ''shanghai'')
     else if contains (asc ''scjgj.cq.gov.cn'') url then Some (asc ''chongqing'')
     else if contains (asc ''amr.gd.gov.cn'') url then Some (asc ''guangdong'')
     else if contains (asc ''scjgj.shaanxi.gov.cn'') url then Some (asc ''shaanxi'')
     else if contains (asc ''samr.gov.cn'') url then Some (asc ''samr'')
     else None)"
  by (simp add: get_page_type_def domain_map_def)

lemma region_maps_agree:
  "pt \<noteq> Some (asc ''samr'') \<Longrightarrow> get_region pt = get_region_name pt"
  unfolding get_region_def get_region_name_def REGION_MAP_def region_map_def
  by (auto split: option.splits simp: asc_def)

text \<open>
  C10, amended. On every URL in which neither Shaanxi domain occurs and at most one of the
  five common domains occurs, the two resolvers return the same identifier; and for every
  identifier other than \<open>samr\<close> the two region lookups return the same label.
\<close>

theorem resolvers_agree_on_single_domain:
  assumes "\<not> contains (asc ''snamr.shaanxi.gov.cn'') url"
    and "\<not> contains (asc ''scjgj.shaanxi.gov.cn'') url"
    and "length (filter (\<lambda>d. contains d url) common_domains) \<le> 1"
    and "pt \<noteq> Some (asc ''samr'')"
  shows "identify_page_type url = get_page_type url \<and> get_region pt = get_region_name pt"
proof
  show "identify_page_type url = get_page_type url"
    using assms(1,2,3)
    by (simp add: identify_page_type_def get_page_type_unfold common_domains_def
        split: if_splits)
  show "get_region pt = get_region_name pt"
    using assms(4) by (rule region_maps_agree)
qed

theorem resolvers_agree_on_single_domain_witness:
  "identify_page_type (asc ''https://scjgj.sh.gov.cn/a'') = get_page_type (asc ''https://scjgj.sh.gov.cn/a'')
   \<and> get_region (Some (asc ''shanghai'')) = get_region_name (Some (asc ''shanghai''))"
  using resolvers_agree_on_single_domain
    [of "asc ''https://scjgj.sh.gov.cn/a''" "Some (asc ''shanghai'')"]
  by (simp add: common_domains_def asc_def)

section \<open>Date normalization\<close>

lemma parse_date_string_single:
  "parse_date_string (Some ex_single)
     = Some \<lparr>year = 2025, month = 3, day = 31, hour = 0, minute = 0, second = 0\<rparr>"
  by (simp add: parse_date_string_def ex_single_def py_replace_def rx_defs strp_defs char_defs)

lemma normalize_date_single:
  "normalize_date (Some ex_single) = Some (asc ''2025-03-31'')"
  by (simp add: normalize_date_def ex_single_def py_replace_def rx_defs strp_defs char_defs
      strftime_ymd_def pad2_def pad4_def asc_def)

lemma DateParser_range:
  "DateParser_extract_date_range ex_range None
     = (Some \<lparr>year = 2025, month = 4, day = 8, hour = 0, minute = 0, second = 0\<rparr>,
        Some \<lparr>year = 2025, month = 4, day = 17, hour = 0, minute = 0, second = 0\<rparr>)"
  by (simp add: DateParser_extract_date_range_def parse_date_string_def ex_range_def
      py_replace_def rx_defs strp_defs char_defs)

lemma extract_date_range_range:
  "extract_date_range (Some ex_range) = (Some (asc ''2025-04-08''), Some (asc ''2025-04-17''))"
  by (simp add: ex_range_def range_defs rx_defs strp_defs char_defs)

lemma extract_date_range_spaced:
  "extract_date_range (Some ex_spaced) = (Some (asc ''2025-04-08''), Some (asc ''2025-04-17''))"
  by (simp add: ex_spaced_def range_defs rx_defs strp_defs char_defs)

text \<open>
  The helper of utils.py, called on the whole text without a pattern, splits at U+81F3 and
  parses each side as one date, so a prefix before the first date costs the start date.
  The parsers call it on a matched group only.
\<close>

lemma DateParser_range_with_prefix:
  "DateParser_extract_date_range ex_spaced None
     = (None, Some \<lparr>year = 2025, month = 4, day = 17, hour = 0, minute = 0, second = 0\<rparr>)"
  by (simp add: DateParser_extract_date_range_def parse_date_string_def ex_spaced_def
      py_replace_def rx_defs strp_defs char_defs)

text \<open>
  C3. \<open>parse_date_string\<close> maps the single date U+5E74/U+6708/U+65E5 form of 31 March 2025
  to the date 2025-03-31, whose ISO form is the string \<open>2025-03-31\<close> (also the result of
  \<open>normalize_date\<close>); the range from 8 to 17 April 2025 is mapped to the start 2025-04-08
  and the end 2025-04-17, by \<open>DateParser.extract_date_range\<close> as dates and by
  \<open>BaseParser.extract_date_range\<close> as ISO strings; and \<open>BaseParser.extract_date_range\<close>
  maps the variant with the spaced-out prefix to the same pair as the plain range.
\<close>

theorem date_normalization_examples:
  "parse_date_string (Some ex_single)
     = Some \<lparr>year = 2025, month = 3, day = 31, hour = 0, minute = 0, second = 0\<rparr>
   \<and> map_option strftime_ymd (parse_date_string (Some ex_single)) = Some (asc ''2025-03-31'')
   \<and> normalize_date (Some ex_single) = Some (asc ''2025-03-31'')
   \<and> DateParser_extract_date_range ex_range None
       = (Some \<lparr>year = 2025, month = 4, day = 8, hour = 0, minute = 0, second = 0\<rparr>,
          Some \<lparr>year = 2025, month = 4, day = 17, hour = 0, minute = 0, second = 0\<rparr>)
   \<and> extract_date_range (Some ex_range) = (Some (asc ''2025-04-08''), Some (asc ''2025-04-17''))
   \<and> extract_date_range (Some ex_spaced) = extract_date_range (Some ex_range)"
  using parse_date_string_single normalize_date_single DateParser_range
    extract_date_range_range extract_date_range_spaced
  by (simp add: strftime_ymd_def pad2_def pad4_def asc_def char_defs)

section \<open>The parser contract\<close>

text \<open>
  C4, as stated, fails: with a title extracted and no date range, \<open>parse\<close> still returns
  \<open>None\<close> when the extraction of the attachment link raises, because \<open>parse\<close> turns every
  exception of the three methods into a failure.
\<close>

theorem parse_fails_when_attachment_raises:
  "parse (Returns (Some (asc ''T''))) (Returns (None :: datetime option, None)) Raises = None"
  by (simp add: parse_def asc_def)

text \<open>
  C4, amended. If no title is extracted (the title method raises, or returns \<open>None\<close> or the
  empty string) the parse fails. If a title is extracted, the date range method returns no
  dates and the attachment method returns without raising, the parse succeeds and the
  record has the title, null start and end dates and the attachment link found.
\<close>

theorem parse_missing_fields:
  "(get_title \<in> {Raises, Returns None, Returns (Some [])}
      \<longrightarrow> parse get_title get_date_range get_attachment_url = None)
   \<and> (get_title = Returns (Some title) \<and> title \<noteq> [] \<and> get_date_range = Returns (None, None)
        \<and> get_attachment_url = Returns a
      \<longrightarrow> parse get_title get_date_range get_attachment_url
           = Some \<lparr>res_case_name = title, res_notice_start_date = None,
                   res_notice_end_date = None, res_attachment_url = a\<rparr>)"
  by (auto simp: parse_def)

theorem parse_missing_fields_witness:
  "parse Raises (Returns (None :: datetime option, None)) (Returns None) = None
   \<and> parse (Returns (Some (asc ''T''))) (Returns (None :: datetime option, None))
        (Returns (Some (asc ''a.doc'')))
       = Some \<lparr>res_case_name = asc ''T'', res_notice_start_date = None,
               res_notice_end_date = None, res_attachment_url = Some (asc ''a.doc'')\<rparr>"
  using parse_missing_fields [where get_title = Raises
      and get_date_range = "Returns (None :: datetime option, None)"
      and get_attachment_url = "Returns None"]
    parse_missing_fields [where get_title = "Returns (Some (asc ''T''))" and title = "asc ''T''"
      and get_date_range = "Returns (None :: datetime option, None)"
      and get_attachment_url = "Returns (Some (asc ''a.doc''))" and a = "Some (asc ''a.doc'')"]
  by (simp add: asc_def)

section \<open>Deduplication by source URL\<close>


lemma max_of_mem: "xs \<noteq> [] \<Longrightarrow> max_of xs \<in> set xs"
proof (induction xs)
  case Nil
  then show ?case by simp
next
  case (Cons a xs)
  show ?case
  proof (cases "xs = []")
    case True
    then show ?thesis by simp
  next
    case False
    with Cons.IH show ?thesis by (auto simp: max_def)
  qed
qed




lemma delete_sql_keeps_unique:
  assumes r: "r \<in> set db" and u: "\<forall>r' \<in> set db. source_url r' = source_url r \<longrightarrow> r' = r"
  shows "r \<in> set (delete_sql db)"
proof -
  from r u have "set (group_rows (source_url r) db) = {r}"
    by (auto simp: group_rows_def)
  then have "set (map rowid (group_rows (source_url r) db)) = {rowid r}"
    by simp
  moreover have "map rowid (group_rows (source_url r) db) \<noteq> []"
    using r by (auto simp: group_rows_def filter_empty_conv)
  ultimately have "max_of (map rowid (group_rows (source_url r) db)) = rowid r"
    using max_of_mem by blast
  moreover from r have "source_url r \<in> set (group_keys db)"
    by (simp add: group_keys_def)
  ultimately have "rowid r \<in> set (max_rowids db)"
    by (force simp: max_rowids_def)
  with r show ?thesis by (simp add: delete_sql_def)
qed


text \<open>In every branch of the pass, a row that shares its \<open>source_url\<close> with no other row
  stays, and no row is added.\<close>

lemma dedup_keeps_unique_rows:
  "r \<in> set db \<Longrightarrow> \<forall>r' \<in> set db. source_url r' = source_url r \<longrightarrow> r' = r
   \<Longrightarrow> r \<in> set (deduplicate_by_source_url db_exists sql_ok db)"
  by (auto simp: deduplicate_by_source_url_def intro: delete_sql_keeps_unique)

lemma dedup_only_deletes:
  "set (deduplicate_by_source_url db_exists sql_ok db) \<subseteq> set db"
  by (auto simp: deduplicate_by_source_url_def delete_sql_def)





section \<open>Reconciliation: the fill policy\<close>





lemma find_upd_first:
  "find Q xs = Some ex \<Longrightarrow> Q y \<Longrightarrow> find Q (upd_first Q y xs) = Some y"
  by (induction xs) auto






lemmas example_defs =
  example_stored_def example_sighting_def example_detail_def good_env_def broken_env_def
  full_disk_env_def empty_world_def d1_def d2_def

lemmas io_defs =
  exists_def request_def put_file_def write_all_def remove_partial_def path_join_def
  py_lower_def endswith_def last_part_def attachment_dir_def sub_illegal_def c_slash_def
  c_dot_def


text \<open>
  The Shanghai reconciler fills the dates in the same way; it fills \<open>attachment_path\<close> when
  the stored value is null or the empty string.
\<close>

lemma Shanghai_update_fill:
  "Shanghai_update dd a r = (r', need) \<Longrightarrow>
     rowid r' = rowid r \<and> case_name r' = case_name r
     \<and> fill_only (notice_start_date r) (dd_start_date dd) (notice_start_date r')
     \<and> fill_only (notice_end_date r) (dd_end_date dd) (notice_end_date r')
     \<and> (truthy (attachment_path r) \<longrightarrow> attachment_path r' = attachment_path r)
     \<and> region r' = Some zh_shanghai \<and> (\<not> need \<longrightarrow> r' = r)"
  by (auto simp: Shanghai_update_def Let_def fill_only_def split: if_splits)

section \<open>Reconciliation: the region\<close>

lemma Beijing_update_region:
  "Beijing_update dd r = (r', need) \<Longrightarrow>
     rowid r' = rowid r \<and> case_name r' = case_name r \<and> region r' = Some zh_beijing
     \<and> (\<not> need \<longrightarrow> r' = r)"
  by (auto simp: Beijing_update_def Let_def split: if_splits)

lemma first_by_name_name: "first_by_name t db = Some ex \<Longrightarrow> case_name ex = Some t"
  by (auto simp: first_by_name_def find_Some_iff)

lemma Beijing_region_corrected:
  assumes ex: "first_by_name t db = Some ex" and ok: "commit_ok"
  shows "\<exists>r. first_by_name t (fst (snd (Beijing_process_case e commit_ok now t u (Some dd) db w)))
               = Some r \<and> rowid r = rowid ex \<and> region r = Some zh_beijing"
proof -
  obtain r need where u: "Beijing_update dd ex = (r, need)"
    by (cases "Beijing_update dd ex")
  note p = Beijing_update_region [OF u] first_by_name_name [OF ex]
  obtain a w' where s: "Beijing_attachment_step e t dd w = (a, w')"
    by (cases "Beijing_attachment_step e t dd w")
  show ?thesis
  proof (cases need)
    case True
    from ex p have "find (\<lambda>x. case_name x = Some t) (upd_first (\<lambda>x. case_name x = Some t) r db) = Some r"
      by (auto simp: first_by_name_def intro: find_upd_first)
    with True ok ex u s p show ?thesis
      by (simp add: Beijing_process_case_def first_by_name_def)
  next
    case False
    with ok ex u s p show ?thesis
      by (auto simp: Beijing_process_case_def)
  qed
qed

lemma Shanghai_region_corrected:
  assumes ex: "first_by_name t db = Some ex" and ok: "commit_ok"
  shows "\<exists>r. first_by_name t (fst (snd (Shanghai_process_case e commit_ok now t u (Some dd) db w)))
               = Some r \<and> rowid r = rowid ex \<and> region r = Some zh_shanghai"
proof -
  obtain a w' where s: "Shanghai_attachment_step e (Some ex) dd w = (a, w')"
    by (cases "Shanghai_attachment_step e (Some ex) dd w")
  obtain r need where u: "Shanghai_update dd a ex = (r, need)"
    by (cases "Shanghai_update dd a ex")
  note p = Shanghai_update_fill [OF u] first_by_name_name [OF ex]
  show ?thesis
  proof (cases need)
    case True
    from ex p have "find (\<lambda>x. case_name x = Some t) (upd_first (\<lambda>x. case_name x = Some t) r db) = Some r"
      by (auto simp: first_by_name_def intro: find_upd_first)
    with True ok ex u s p show ?thesis
      by (simp add: Shanghai_process_case_def first_by_name_def)
  next
    case False
    with ok ex u s p show ?thesis
      by (auto simp: Shanghai_process_case_def)
  qed
qed

lemma save_to_db_region:
  "list_all2
     (\<lambda>r r'. region r' =
        (if sql_eq (case_name r) (dict_get (cd_title cd) (cd_case_name cd))
            \<and> \<not> truthy (region r) \<and> truthy (dict_get (cd_region cd) (Some []))
         then dict_get (cd_region cd) (Some []) else region r))
     db (take (length db) (snd (save_to_db True now cd db)))"
proof -
  let ?n = "dict_get (cd_title cd) (cd_case_name cd)"
  show ?thesis
  proof (cases "list_ex (\<lambda>r. sql_eq (case_name r) ?n) db")
    case True
    then show ?thesis
      by (simp add: save_to_db_def Let_def list_all2_map2 list_all2_same update_sql_def
          truthy_def)
  next
    case False
    then have "\<forall>r \<in> set db. \<not> sql_eq (case_name r) ?n"
      by (simp add: list_ex_iff)
    with False show ?thesis
      by (simp add: save_to_db_def Let_def list_all2_same)
  qed
qed

text \<open>
  C2, as stated, fails for \<open>CaseScraper.save_to_db\<close>: the stored record of case \<open>x\<close> has the
  region U+5317 U+4EAC (Beijing), the sighting comes from the source of region
  U+4E0A U+6D77 (Shanghai), and after the reconciliation the stored region is still
  Beijing. The \<open>UPDATE\<close> replaces the region only when the stored one is null or empty.
\<close>

theorem save_to_db_keeps_mismatching_region:
  "map region [example_stored] = [Some [21271, 20140]]
   \<and> dict_get (cd_region example_sighting) (Some []) = Some [19978, 28023]
   \<and> fst (save_to_db True 0 example_sighting [example_stored])
   \<and> map region (snd (save_to_db True 0 example_sighting [example_stored]))
       = [Some [21271, 20140]]"
  by (simp add: example_defs save_to_db_def Let_def dict_get_def sql_eq_def update_sql_def asc_def
      zh_defs)

text \<open>
  C2, amended. When the commit succeeds, \<open>BeijingScraper.process_case\<close> and
  \<open>ShanghaiScraper.process_case\<close> leave the existing record they process (the first one
  with the case title) with the region of their source, whatever it was before.
  \<open>CaseScraper.save_to_db\<close> sets the region of a record with the case name to the region
  of the sighting only when the stored region is null or empty and the new one is not, and
  leaves every other region as it is.
\<close>

theorem region_correction:
  assumes "first_by_name t db = Some ex" and "commit_ok"
  shows "(\<exists>r. first_by_name t (fst (snd (Beijing_process_case e commit_ok now t u (Some dd) db w)))
               = Some r \<and> rowid r = rowid ex \<and> region r = Some zh_beijing)
       \<and> (\<exists>r. first_by_name t (fst (snd (Shanghai_process_case e commit_ok now t u (Some dd) db w)))
               = Some r \<and> rowid r = rowid ex \<and> region r = Some zh_shanghai)
       \<and> list_all2
           (\<lambda>r r'. region r' =
              (if sql_eq (case_name r) (dict_get (cd_title cd) (cd_case_name cd))
                  \<and> \<not> truthy (region r) \<and> truthy (dict_get (cd_region cd) (Some []))
               then dict_get (cd_region cd) (Some []) else region r))
           db (take (length db) (snd (save_to_db True now cd db)))"
  using Beijing_region_corrected [OF assms] Shanghai_region_corrected [OF assms]
    save_to_db_region
  by blast

theorem region_correction_witness:
  "first_by_name (asc ''x'') [example_stored] = Some example_stored
   \<and> region example_stored \<noteq> Some zh_shanghai
   \<and> (\<exists>r. first_by_name (asc ''x'')
             (fst (snd (Shanghai_process_case good_env True 0 (asc ''x'') (asc ''a'')
                          (Some example_detail) [example_stored] empty_world)))
               = Some r \<and> rowid r = rowid example_stored \<and> region r = Some zh_shanghai)"
proof -
  have h: "first_by_name (asc ''x'') [example_stored] = Some example_stored"
    by (simp add: first_by_name_def example_defs)
  have n: "region example_stored \<noteq> Some zh_shanghai"
    by (simp add: example_defs zh_defs)
  from region_correction [OF h TrueI, where e = good_env and now = 0 and u = "asc ''a''"
      and dd = example_detail and w = empty_world] h n
  show ?thesis by blast
qed

section \<open>Attachment fetching\<close>

lemma CaseScraper_existing:
  "exists w (path_join dp (file_name_of url cn))
   \<Longrightarrow> CaseScraper_download_attachment e dp url cn w = (Some (file_name_of url cn), w)"
  by (simp add: CaseScraper_download_attachment_def Let_def)

lemma CaseScraper_success:
  "CaseScraper_download_attachment e dp url cn w = (Some n, w1)
   \<Longrightarrow> n = file_name_of url cn \<and> exists w1 (path_join dp (file_name_of url cn))"
  by (auto simp: CaseScraper_download_attachment_def Let_def exists_def put_file_def
      split: if_splits http.splits body.splits prod.splits)

lemma Shanghai_existing:
  "exists w p \<Longrightarrow> Shanghai_download_attachment e url p w = (True, w)"
  by (simp add: Shanghai_download_attachment_def)

lemma Shanghai_success:
  "Shanghai_download_attachment e url p w = (True, w1) \<Longrightarrow> exists w1 p"
  by (auto simp: Shanghai_download_attachment_def Let_def exists_def put_file_def
      remove_partial_def split: if_splits http.splits body.splits prod.splits)

text \<open>
  C6. If the file at the derived path exists, \<open>CaseScraper.download_attachment\<close> returns
  the derived file name and \<open>ShanghaiScraper.download_attachment\<close> returns \<open>True\<close>, and
  neither changes the world: no request is sent and no file is written. In particular,
  after a call that succeeded, a second call for an attachment with the same derived name
  or path returns the same result without a request, whatever the server would now do
  and whatever the URL is: the test is on the derived name only.
\<close>

theorem attachment_fetch_idempotent:
  "(exists w (path_join dp (file_name_of url cn))
      \<longrightarrow> CaseScraper_download_attachment e dp url cn w = (Some (file_name_of url cn), w))
   \<and> (CaseScraper_download_attachment e dp url cn w = (Some n, w1)
        \<and> file_name_of url2 cn2 = file_name_of url cn
      \<longrightarrow> CaseScraper_download_attachment e2 dp url2 cn2 w1 = (Some n, w1)
          \<and> fetched (snd (CaseScraper_download_attachment e2 dp url2 cn2 w1)) = fetched w1)
   \<and> (exists w p \<longrightarrow> Shanghai_download_attachment e url p w = (True, w))
   \<and> (Shanghai_download_attachment e url p w = (True, w1)
      \<longrightarrow> Shanghai_download_attachment e2 url2 p w1 = (True, w1)
          \<and> fetched (snd (Shanghai_download_attachment e2 url2 p w1)) = fetched w1)"
proof -
  have "CaseScraper_download_attachment e2 dp url2 cn2 w1 = (Some n, w1)"
    if "CaseScraper_download_attachment e dp url cn w = (Some n, w1)"
      and "file_name_of url2 cn2 = file_name_of url cn"
    using CaseScraper_success [OF that(1)] CaseScraper_existing [of w1 dp url2 cn2 e2] that(2)
    by simp
  moreover have "Shanghai_download_attachment e2 url2 p w1 = (True, w1)"
    if "Shanghai_download_attachment e url p w = (True, w1)"
    using Shanghai_success [OF that] by (rule Shanghai_existing)
  ultimately show ?thesis
    using CaseScraper_existing [of w dp url cn e] Shanghai_existing [of w p e url]
    by simp
qed

lemmas fetch_defs =
  CaseScraper_download_attachment_def file_name_of_def safe_title_of_def file_ext_of_def
  illegal_chars_def py_replace_def py_strip_def is_space_def Let_def

lemma CaseScraper_first_fetch:
  "CaseScraper_download_attachment good_env attachment_dir (asc ''http://h/f.pdf'') (asc ''x y'')
     empty_world
   = (Some (asc ''xy.pdf''),
      \<lparr>files = (\<lambda>p. None)(asc ''data/attachments/xy.pdf'' \<mapsto> [80, 75, 3]),
       fetched = [asc ''http://h/f.pdf'']\<rparr>)"
  by (simp add: fetch_defs io_defs example_defs asc_def)

text \<open>A first fetch for the case \<open>x y\<close> succeeds; a second call, for another URL and a
  case name that give the same file name, returns that name without a request, although
  the server would now break off.\<close>

theorem attachment_fetch_idempotent_witness:
  "fst (CaseScraper_download_attachment good_env attachment_dir (asc ''http://h/f.pdf'')
          (asc ''x y'') empty_world) = Some (asc ''xy.pdf'')
   \<and> file_name_of (asc ''http://o/g.PDF'') (asc ''xy'') = file_name_of (asc ''http://h/f.pdf'') (asc ''x y'')
   \<and> CaseScraper_download_attachment broken_env attachment_dir (asc ''http://o/g.PDF'') (asc ''xy'')
        (snd (CaseScraper_download_attachment good_env attachment_dir (asc ''http://h/f.pdf'')
                (asc ''x y'') empty_world))
      = (Some (asc ''xy.pdf''),
         snd (CaseScraper_download_attachment good_env attachment_dir (asc ''http://h/f.pdf'')
                (asc ''x y'') empty_world))
   \<and> fetched (snd (CaseScraper_download_attachment good_env attachment_dir
                      (asc ''http://h/f.pdf'') (asc ''x y'') empty_world))
      = [asc ''http://h/f.pdf'']"
proof -
  let ?r = "CaseScraper_download_attachment good_env attachment_dir (asc ''http://h/f.pdf'')
              (asc ''x y'') empty_world"
  have f: "?r = (Some (asc ''xy.pdf''), snd ?r)"
    by (simp add: CaseScraper_first_fetch)
  have n: "file_name_of (asc ''http://o/g.PDF'') (asc ''xy'')
           = file_name_of (asc ''http://h/f.pdf'') (asc ''x y'')"
    by (simp add: fetch_defs io_defs asc_def)
  from attachment_fetch_idempotent
    [where e = good_env and dp = attachment_dir and url = "asc ''http://h/f.pdf''"
       and cn = "asc ''x y''" and w = empty_world and n = "asc ''xy.pdf''" and ?w1.0 = "snd ?r"
       and ?url2.0 = "asc ''http://o/g.PDF''" and ?cn2.0 = "asc ''xy''" and ?e2.0 = broken_env] f n
  show ?thesis
    by (simp add: CaseScraper_first_fetch)
qed

section \<open>Attachment failures\<close>

text \<open>The Beijing and Shanghai fetchers do clean up: after a failed call no file is at the
  target path.\<close>

lemma remove_partial_absent: "\<not> exists (snd (remove_partial p w)) p"
  by (simp add: remove_partial_def exists_def)

lemma Beijing_download_cleanup:
  "\<not> fst (Beijing_download_attachment e url p w)
   \<Longrightarrow> \<not> exists (snd (Beijing_download_attachment e url p w)) p"
  by (auto simp: Beijing_download_attachment_def Let_def remove_partial_def exists_def
      put_file_def split: http.splits body.splits prod.splits if_splits)

lemma Shanghai_download_cleanup:
  "\<not> fst (Shanghai_download_attachment e url p w)
   \<Longrightarrow> \<not> exists (snd (Shanghai_download_attachment e url p w)) p"
  by (auto simp: Shanghai_download_attachment_def Let_def remove_partial_def exists_def
      put_file_def split: http.splits body.splits prod.splits if_splits)

text \<open>
  \<open>AttachmentDownloader.download_attachment\<close> on a disk that fills up during the write:
  it returns \<open>None\<close> and the first two bytes stay at the target path.
\<close>

lemma AttachmentDownloader_leaves_partial_file:
  "AttachmentDownloader_download_attachment full_disk_env (asc ''dl'') (Some (asc ''http://h/f.doc''))
     (asc ''x'') (asc ''bj'') empty_world
   = (None,
      \<lparr>files = (\<lambda>p. None)(asc ''dl/bj/x.doc'' \<mapsto> [80, 75]),
       fetched = [asc ''http://h/f.doc'']\<rparr>)"
  by (simp add: AttachmentDownloader_download_attachment_def io_defs example_defs asc_def)

text \<open>
  \<open>BeijingScraper.process_case\<close> does not look at the result of its fetcher: for a new case
  whose download breaks off, the file is removed, and the record is still inserted with
  the path of that file as its attachment.
\<close>

lemma Beijing_records_missing_attachment:
  "Beijing_process_case broken_env True 0 (asc ''x'') (asc ''a'') (Some example_detail) []
     empty_world
   = (True,
      [\<lparr>rowid = 1, case_name = Some (asc ''x''), notice_start_date = Some d2,
        notice_end_date = Some d2, source_url = Some (asc ''a''), region = Some zh_beijing,
        attachment_path = Some (asc ''data/attachments/x.pdf''), created_at = Some 0\<rparr>],
      \<lparr>files = (\<lambda>p. None), fetched = [asc ''http://h/f.pdf'']\<rparr>)"
  by (simp add: Beijing_process_case_def Beijing_attachment_step_def
      Beijing_download_attachment_def first_by_name_def next_rowid_def io_defs example_defs
      asc_def Let_def)

text \<open>
  C7 is what the Beijing fetcher does, and \<open>CaseScraper.download_attachment\<close> does not:
  when the body of a status-200 response breaks off, the file has been opened, the
  function returns \<open>None\<close>, and the empty file stays at the target path. The next call for
  the same case finds that file and returns its name as the attachment, without a
  request.
\<close>

theorem CaseScraper_leaves_partial_file:
  "CaseScraper_download_attachment broken_env attachment_dir (asc ''http://h/f.pdf'') (asc ''x y'')
     empty_world
   = (None,
      \<lparr>files = (\<lambda>p. None)(asc ''data/attachments/xy.pdf'' \<mapsto> []),
       fetched = [asc ''http://h/f.pdf'']\<rparr>)
   \<and> CaseScraper_download_attachment good_env attachment_dir (asc ''http://h/f.pdf'') (asc ''x y'')
       \<lparr>files = (\<lambda>p. None)(asc ''data/attachments/xy.pdf'' \<mapsto> []),
        fetched = [asc ''http://h/f.pdf'']\<rparr>
     = (Some (asc ''xy.pdf''),
        \<lparr>files = (\<lambda>p. None)(asc ''data/attachments/xy.pdf'' \<mapsto> []),
         fetched = [asc ''http://h/f.pdf'']\<rparr>)"
  by (simp add: fetch_defs io_defs example_defs asc_def)

section \<open>Stalled pagination\<close>

lemma turn_stalled:
  assumes "page s = Some b" and "first_title pw b = Returns (Some t)"
    and "next_button pw b = Returns True" and "click pw b = (b', True)"
    and "content_ready pw b'" and "first_title pw b' = Returns (Some t)"
  shows "turn_to_next_page pw s
         = (False, s\<lparr>page := Some b', clicks := Suc (clicks s), current_page := None\<rparr>)"
  using assms by (simp add: turn_to_next_page_def reset_def)

text \<open>The loop of turns is left at the first failed turn, after any number of turns that
  succeeded.\<close>

lemma turn_times_failure:
  "turn_times pw k s1 = (True, s) \<Longrightarrow> turn_to_next_page pw s = (False, s') \<Longrightarrow> k < n
   \<Longrightarrow> turn_times pw n s1 = (False, s')"
proof (induction k arbitrary: s1 n)
  case 0
  then obtain m where "n = Suc m" by (cases n) auto
  with 0 show ?case by simp
next
  case (Suc k)
  from Suc.prems(3) obtain m where n: "n = Suc m" and km: "k < m"
    by (cases n) auto
  from Suc.prems(1) obtain s2 where t: "turn_to_next_page pw s1 = (True, s2)"
    and r: "turn_times pw k s2 = (True, s)"
    by (auto split: prod.splits bool.splits)
  from Suc.IH [OF r Suc.prems(2) km] t n show ?case by simp
qed

lemma loop_stops_on_failed_turn:
  assumes "page s = Some b" and "current_page s = Some cur" and "cur < page_no"
    and "turn_to_next_page pw s = (False, s')"
  shows "list_page_loop (Suc retries) pw url page_no s = (None, s')"
  using assms by simp

lemma loop_stops_on_failed_first_visit:
  assumes "page s0 = Some b0" and "current_page s0 = None" and "goto pw url b0 = (b1, True)"
    and "turn_times pw k (s0\<lparr>page := Some b1, current_page := Some 1\<rparr>) = (True, s)"
    and "k < page_no - 1"
    and "turn_to_next_page pw s = (False, s')"
  shows "list_page_loop (Suc retries) pw url page_no s0 = (None, s')"
proof -
  from turn_times_failure [OF assms(4) assms(6) assms(5)]
  have "turn_times pw (page_no - 1) (s0\<lparr>page := Some b1, current_page := Some 1\<rparr>) = (False, s')" .
  moreover from assms(5) have "1 < page_no" by simp
  ultimately show ?thesis
    using assms(1-3) by (simp add: Let_def)
qed

text \<open>
  C8. Whenever the click on "next" is performed on a page \<open>b\<close> whose first title is \<open>t\<close>
  and the page after the click still shows \<open>t\<close>:
  \<^item> \<open>_turn_to_next_page\<close> reports failure (and forgets the page number);
  \<^item> the driver \<open>parse_list_page_playwright\<close>, asked from that page for a later page than
    the current one, returns the failure result after this one click, whatever the retry
    budget;
  \<^item> the driver on a first visit, which loads the list and turns \<open>page_no - 1\<close> times,
    returns the failure result at the stalled turn, after any number \<open>k\<close> of turns that
    succeeded, without a further click.
  The three parts have their own hypotheses. All functions are total: no input makes them
  loop.
\<close>

theorem stalled_pagination_detected:
  "(page s = Some b \<and> first_title pw b = Returns (Some t) \<and> next_button pw b = Returns True
      \<and> click pw b = (b', True) \<and> content_ready pw b' \<and> first_title pw b' = Returns (Some t)
    \<longrightarrow> turn_to_next_page pw s
          = (False, s\<lparr>page := Some b', clicks := Suc (clicks s), current_page := None\<rparr>))
   \<and> (page s = Some b \<and> first_title pw b = Returns (Some t) \<and> next_button pw b = Returns True
        \<and> click pw b = (b', True) \<and> content_ready pw b' \<and> first_title pw b' = Returns (Some t)
        \<and> current_page s = Some cur \<and> cur < page_no
      \<longrightarrow> list_page_loop (Suc retries) pw url page_no s
            = (None, s\<lparr>page := Some b', clicks := Suc (clicks s), current_page := None\<rparr>)
          \<and> parse_list_page_playwright pw url page_no s
            = (None, s\<lparr>page := Some b', clicks := Suc (clicks s), current_page := None\<rparr>))
   \<and> (page s0 = Some b0 \<and> current_page s0 = None \<and> goto pw url b0 = (b1, True)
        \<and> turn_times pw k (s0\<lparr>page := Some b1, current_page := Some 1\<rparr>) = (True, s)
        \<and> k < page_no - 1
        \<and> page s = Some b \<and> first_title pw b = Returns (Some t) \<and> next_button pw b = Returns True
        \<and> click pw b = (b', True) \<and> content_ready pw b' \<and> first_title pw b' = Returns (Some t)
      \<longrightarrow> list_page_loop (Suc retries) pw url page_no s0
            = (None, s\<lparr>page := Some b', clicks := Suc (clicks s), current_page := None\<rparr>)
          \<and> parse_list_page_playwright pw url page_no s0
            = (None, s\<lparr>page := Some b', clicks := Suc (clicks s), current_page := None\<rparr>))"
proof (intro conjI impI)
  let ?s' = "s\<lparr>page := Some b', clicks := Suc (clicks s), current_page := None\<rparr>"
  {
    assume h: "page s = Some b \<and> first_title pw b = Returns (Some t) \<and> next_button pw b = Returns True
      \<and> click pw b = (b', True) \<and> content_ready pw b' \<and> first_title pw b' = Returns (Some t)"
    then show "turn_to_next_page pw s = (False, ?s')"
      by (intro turn_stalled) auto
  }
  {
    assume h: "page s = Some b \<and> first_title pw b = Returns (Some t) \<and> next_button pw b = Returns True
        \<and> click pw b = (b', True) \<and> content_ready pw b' \<and> first_title pw b' = Returns (Some t)
        \<and> current_page s = Some cur \<and> cur < page_no"
    then have t: "turn_to_next_page pw s = (False, ?s')"
      by (intro turn_stalled) auto
    from h have l: "list_page_loop (Suc n) pw url page_no s = (None, ?s')" for n
      by (intro loop_stops_on_failed_turn [OF _ _ _ t]) auto
    from l show "list_page_loop (Suc retries) pw url page_no s = (None, ?s')" .
    from h l [of 2] show "parse_list_page_playwright pw url page_no s = (None, ?s')"
      by (simp add: parse_list_page_playwright_def numeral_3_eq_3)
  }
  {
    assume h: "page s0 = Some b0 \<and> current_page s0 = None \<and> goto pw url b0 = (b1, True)
        \<and> turn_times pw k (s0\<lparr>page := Some b1, current_page := Some 1\<rparr>) = (True, s)
        \<and> k < page_no - 1
        \<and> page s = Some b \<and> first_title pw b = Returns (Some t) \<and> next_button pw b = Returns True
        \<and> click pw b = (b', True) \<and> content_ready pw b' \<and> first_title pw b' = Returns (Some t)"
    then have t: "turn_to_next_page pw s = (False, ?s')"
      by (intro turn_stalled) auto
    from h have l: "list_page_loop (Suc n) pw url page_no s0 = (None, ?s')" for n
      by (intro loop_stops_on_failed_first_visit [OF _ _ _ _ _ t]) auto
    from l show "list_page_loop (Suc retries) pw url page_no s0 = (None, ?s')" .
    from h l [of 2] show "parse_list_page_playwright pw url page_no s0 = (None, ?s')"
      by (simp add: parse_list_page_playwright_def numeral_3_eq_3)
  }
qed

text \<open>
  On a site where loading the list shows page 1 and the control is stuck on page 2: the
  turn from page 2 fails; the request for page 3 from page 2 fails after one click; and a
  first visit asked for page 4 fails at its second turn, after one turn that succeeded.
\<close>

theorem stalled_pagination_detected_witness:
  "turn_to_next_page (stuck_site 2) \<lparr>page = Some 2, current_page = Some 2, clicks = 1\<rparr>
     = (False, \<lparr>page = Some 2, current_page = None, clicks = 2\<rparr>)
   \<and> parse_list_page_playwright (stuck_site 2) (asc ''http://h/'') 3
       \<lparr>page = Some 2, current_page = Some 2, clicks = 1\<rparr>
     = (None, \<lparr>page = Some 2, current_page = None, clicks = 2\<rparr>)
   \<and> turn_times (stuck_site 2) 1 \<lparr>page = Some 1, current_page = Some 1, clicks = 0\<rparr>
     = (True, \<lparr>page = Some 2, current_page = Some 2, clicks = 1\<rparr>)
   \<and> parse_list_page_playwright (stuck_site 2) (asc ''http://h/'') 4
       \<lparr>page = Some 0, current_page = None, clicks = 0\<rparr>
     = (None, \<lparr>page = Some 2, current_page = None, clicks = 2\<rparr>)"
proof -
  have tt: "turn_times (stuck_site 2) 1 \<lparr>page = Some 1, current_page = Some 1, clicks = 0\<rparr>
            = (True, \<lparr>page = Some 2, current_page = Some 2, clicks = 1\<rparr>)"
    by (simp add: stuck_site_def turn_to_next_page_def reset_def)
  note w = stalled_pagination_detected
    [where pw = "stuck_site 2" and b = 2 and b' = 2 and t = "[2]"
       and s = "\<lparr>page = Some 2, current_page = Some 2, clicks = 1\<rparr>" and cur = 2
       and ?s0.0 = "\<lparr>page = Some 0, current_page = None, clicks = 0\<rparr>"
       and ?b0.0 = 0 and ?b1.0 = 1 and k = 1 and url = "asc ''http://h/''" and retries = 2]
  from w [where page_no = 3] w [where page_no = 4] tt
  show ?thesis
    by (simp add: stuck_site_def)
qed

text \<open>On that site the first two pages are read.\<close>

lemma stuck_site_run:
  "parse_list_page_playwright (stuck_site 2) u 1 \<lparr>page = Some 0, current_page = None, clicks = 0\<rparr>
     = (Some [([1], [1])], \<lparr>page = Some 1, current_page = Some 1, clicks = 0\<rparr>)
   \<and> parse_list_page_playwright (stuck_site 2) u 2 \<lparr>page = Some 1, current_page = Some 1, clicks = 0\<rparr>
     = (Some [([2], [2])], \<lparr>page = Some 2, current_page = Some 2, clicks = 1\<rparr>)"
  by (simp add: parse_list_page_playwright_def numeral_3_eq_3 stuck_site_def
      turn_to_next_page_def read_list_def reset_def)

end
